theory Spec2Isabelle
  imports Complex_Main "HOL-Library.Sublist"
begin

section \<open>Strings and ordered dictionaries\<close>

text \<open>
  The script is Python 2. A tag dictionary is an \<open>OrderedDict\<close> from text to text: an
  association list whose keys are distinct, iterated in insertion order. Text is modelled
  as \<open>string\<close>; one \<open>char\<close> stands for one character of the Python text, so only
  characters with a code below 256 are covered.
\<close>

type_synonym tags = "(string \<times> string) list"

datatype py_error = KeyError | ValueError | TypeError

text \<open>\<open>d[k] = v\<close>: an existing key keeps its place, a new key goes to the end.\<close>

fun od_set :: "'k \<Rightarrow> 'v \<Rightarrow> ('k \<times> 'v) list \<Rightarrow> ('k \<times> 'v) list" where
  "od_set k v [] = [(k, v)]"
| "od_set k v ((k', v') # d) = (if k' = k then (k, v) # d else (k', v') # od_set k v d)"

text \<open>\<open>d.pop(k, None)\<close> with the popped value thrown away.\<close>

definition od_pop :: "'k \<Rightarrow> ('k \<times> 'v) list \<Rightarrow> ('k \<times> 'v) list" where
  "od_pop k d = filter (\<lambda>kv. fst kv \<noteq> k) d"

text \<open>\<open>OrderedDict(pairs)\<close> and \<open>d.update(e)\<close>: the pairs are stored one by one.\<close>

definition od_update :: "('k \<times> 'v) list \<Rightarrow> ('k \<times> 'v) list \<Rightarrow> ('k \<times> 'v) list" where
  "od_update d e = foldl (\<lambda>acc kv. od_set (fst kv) (snd kv) acc) d e"

definition od_of_pairs :: "('k \<times> 'v) list \<Rightarrow> ('k \<times> 'v) list" where
  "od_of_pairs e = od_update [] e"


text \<open>
  \<open>d[k].append(v)\<close> on a \<open>defaultdict(list)\<close>: a missing key is created with the
  one-element list.
\<close>

fun dd_append :: "'k \<Rightarrow> 'v \<Rightarrow> ('k \<times> 'v list) list \<Rightarrow> ('k \<times> 'v list) list" where
  "dd_append k v [] = [(k, [v])]"
| "dd_append k v ((k', vs) # d) =
     (if k' = k then (k', vs @ [v]) # d else (k', vs) # dd_append k v d)"

text \<open>\<open>d[k]\<close> on a \<open>defaultdict(list)\<close> that is only read: a missing key reads as \<open>[]\<close>.\<close>

definition dd_get :: "'k \<Rightarrow> ('k \<times> 'v list) list \<Rightarrow> 'v list" where
  "dd_get k d = (case map_of d k of None \<Rightarrow> [] | Some vs \<Rightarrow> vs)"

text \<open>\<open>s.rsplit(c, 1)[-1]\<close>: what follows the last \<open>c\<close>, the whole text when there is none.\<close>

definition after_last :: "char \<Rightarrow> string \<Rightarrow> string" where
  "after_last c s = rev (takeWhile (\<lambda>x. x \<noteq> c) (rev s))"

text \<open>\<open>s.split(c, 1)[0]\<close> and \<open>s.split(c)[0]\<close>: what precedes the first \<open>c\<close>.\<close>

definition before_first :: "char \<Rightarrow> string \<Rightarrow> string" where
  "before_first c s = takeWhile (\<lambda>x. x \<noteq> c) s"

text \<open>Decimal text of a Python integer, as \<open>'{}'.format(n)\<close> prints it.\<close>

fun digits_of_nat :: "nat \<Rightarrow> string" where
  "digits_of_nat n =
     (if n < 10 then [char_of (48 + n)]
      else digits_of_nat (n div 10) @ [char_of (48 + n mod 10)])"

definition format_int :: "int \<Rightarrow> string" where
  "format_int i = (if i < 0 then CHR ''-'' # digits_of_nat (nat (- i)) else digits_of_nat (nat i))"

text \<open>
  \<open>long(s)\<close> on decimal text: an optional sign and at least one digit. Any other text
  is taken to raise \<open>ValueError\<close> (Python also accepts white space around the number
  and a trailing \<open>L\<close>).
\<close>

definition is_digit :: "char \<Rightarrow> bool" where
  "is_digit c = (c \<in> set ''0123456789'')"

definition nat_of_digits :: "string \<Rightarrow> nat" where
  "nat_of_digits s = foldl (\<lambda>acc c. 10 * acc + (of_char c - 48)) 0 s"

definition long :: "string \<Rightarrow> py_error + int" where
  "long s =
     (let (neg, body) = (case s of
                           c # r \<Rightarrow> if c = CHR ''-'' then (True, r)
                                     else if c = CHR ''+'' then (False, r) else (False, s)
                         | [] \<Rightarrow> (False, s))
      in if body \<noteq> [] \<and> list_all is_digit body
         then Inr (if neg then - int (nat_of_digits body) else int (nat_of_digits body))
         else Inl ValueError)"

section \<open>The OSM stream parser\<close>

definition WAY_OFFSET :: int where
  "WAY_OFFSET = 10 ^ 15"

definition RELATION_OFFSET :: int where
  "RELATION_OFFSET = 2 * 10 ^ 15"

definition ALL_OSM_TAGS :: "string set" where
  "ALL_OSM_TAGS = {''node'', ''way'', ''relation''}"

definition WAYS_RELATIONS :: "string set" where
  "WAYS_RELATIONS = {''way'', ''relation''}"

text \<open>
  One element handed over by \<open>etree.iterparse\<close>: its tag, its attributes and, of its
  children, the tag and the attributes of each.
\<close>

record element =
  elem_tag :: string
  elem_attrib :: tags
  elem_children :: "(string \<times> tags) list"

text \<open>The key of a yielded record: the bare id, or \<open>'{}:{}'.format(item_type, elem_id)\<close>.\<close>

datatype osm_key = IdKey int | TypedKey string

text \<open>
  Lines 124 to 130 of \<open>parse_osm\<close>: the element's own tag is kept unless the id lies in
  the range of the ways or of the relations.
\<close>

definition decode_id :: "string \<Rightarrow> int \<Rightarrow> string \<times> int" where
  "decode_id tag elem_id =
     (if elem_id \<ge> WAY_OFFSET \<and> elem_id < RELATION_OFFSET then (''way'', elem_id - WAY_OFFSET)
      else if elem_id \<ge> RELATION_OFFSET then (''relation'', elem_id - RELATION_OFFSET)
      else (tag, elem_id))"

text \<open>\<open>e.attrib['k']\<close>: a missing key raises \<open>KeyError\<close>.\<close>

definition od_item :: "string \<Rightarrow> tags \<Rightarrow> py_error + string" where
  "od_item k d = (case map_of d k of None \<Rightarrow> Inl KeyError | Some v \<Rightarrow> Inr v)"

fun tag_pairs :: "(string \<times> tags) list \<Rightarrow> py_error + tags" where
  "tag_pairs [] = Inr []"
| "tag_pairs ((t, a) # es) =
     (if t = ''tag'' then
        (case od_item ''k'' a of Inl e \<Rightarrow> Inl e
         | Inr k \<Rightarrow> (case od_item ''v'' a of Inl e \<Rightarrow> Inl e
            | Inr v \<Rightarrow> (case tag_pairs es of Inl e \<Rightarrow> Inl e | Inr r \<Rightarrow> Inr ((k, v) # r))))
      else tag_pairs es)"

text \<open>
  The body of the loop of \<open>parse_osm\<close> for one element: \<open>Inr None\<close> when nothing is
  yielded, \<open>Inr (Some (key, attrs))\<close> for a yield, \<open>Inl\<close> for an exception, which ends
  the generator. An element is taken with the attributes and the children it has when
  its turn comes; lines 139 to 142, which clear it afterwards, have no part in what is
  yielded for it.
\<close>

definition parse_elem :: "string set \<Rightarrow> element \<Rightarrow> py_error + (osm_key \<times> tags) option" where
  "parse_elem allowed_types elem =
     (let single_type = (card allowed_types = 1) in
      case (case map_of (elem_attrib elem) ''id'' of None \<Rightarrow> Inr 0 | Some s \<Rightarrow> long s) of
        Inl e \<Rightarrow> Inl e
      | Inr raw_id \<Rightarrow>
          let (item_type, elem_id) = decode_id (elem_tag elem) raw_id in
          if item_type \<in> allowed_types then
            (case tag_pairs (elem_children elem) of
               Inl e \<Rightarrow> Inl e
             | Inr pairs \<Rightarrow>
                 let attrs = od_update (od_pop ''id'' (elem_attrib elem)) (od_of_pairs pairs);
                     key = (if single_type then IdKey elem_id
                            else TypedKey (item_type @ '':'' @ format_int elem_id))
                 in Inr (Some (key, attrs)))
          else Inr None)"

text \<open>
  The generator over the whole sequence of elements: what it yields, in order, and the
  exception that ended it, if any.
\<close>

fun parse_osm :: "string set \<Rightarrow> element list \<Rightarrow> (osm_key \<times> tags) list \<times> py_error option" where
  "parse_osm allowed_types [] = ([], None)"
| "parse_osm allowed_types (elem # rest) =
     (case parse_elem allowed_types elem of
        Inl e \<Rightarrow> ([], Some e)
      | Inr None \<Rightarrow> parse_osm allowed_types rest
      | Inr (Some y) \<Rightarrow> (let (ys, err) = parse_osm allowed_types rest in (y # ys, err)))"

section \<open>Regular expressions\<close>

text \<open>
  The coordinate patterns of the script, as terms. \<open>run\<close> lists every way the
  expression can match a prefix of the text, in the order in which Python's backtracking
  matcher tries them (greedy repetition first, the left alternative first), each with the
  text left over and the groups captured so far. The match Python reports is the first
  element. The flag is \<open>re.I\<close>: the letters of a class are compared without case.
\<close>

datatype regex =
    Cls "char list"
  | Cat regex regex
  | Alt regex regex
  | Opt regex
  | Star regex
  | Grp nat regex
  | Eos

type_synonym mstate = "string \<times> (nat \<times> string) list"

definition ascii_lower :: "char \<Rightarrow> char" where
  "ascii_lower c =
     (case map_of (zip ''ABCDEFGHIJKLMNOPQRSTUVWXYZ'' ''abcdefghijklmnopqrstuvwxyz'') c of
        None \<Rightarrow> c | Some l \<Rightarrow> l)"

definition in_class :: "bool \<Rightarrow> char list \<Rightarrow> char \<Rightarrow> bool" where
  "in_class ignorecase cs c =
     (if ignorecase then ascii_lower c \<in> set (map ascii_lower cs) else c \<in> set cs)"

text \<open>
  Greedy repetition: one more round first, stopping last. The bound is the length of the
  text left, and a round that consumes nothing is not repeated.
\<close>

primrec star_run :: "(mstate \<Rightarrow> mstate list) \<Rightarrow> nat \<Rightarrow> mstate \<Rightarrow> mstate list" where
  "star_run f 0 st = [st]"
| "star_run f (Suc n) st =
     concat (map (star_run f n) (filter (\<lambda>st'. length (fst st') < length (fst st)) (f st))) @ [st]"

primrec run :: "regex \<Rightarrow> bool \<Rightarrow> mstate \<Rightarrow> mstate list" where
  "run (Cls cs) ic st =
     (case fst st of [] \<Rightarrow> [] | c # r \<Rightarrow> if in_class ic cs c then [(r, snd st)] else [])"
| "run (Cat a b) ic st = concat (map (run b ic) (run a ic st))"
| "run (Alt a b) ic st = run a ic st @ run b ic st"
| "run (Opt a) ic st = run a ic st @ [st]"
| "run (Star a) ic st = star_run (run a ic) (length (fst st)) st"
| "run (Grp n a) ic st =
     map (\<lambda>st'. (fst st', od_set n (take (length (fst st) - length (fst st')) (fst st)) (snd st')))
       (run a ic st)"
| "run Eos ic st = (if fst st = [] \<or> fst st = [CHR 0x0A] then [st] else [])"

text \<open>
  \<open>pattern.match(text)\<close> followed by \<open>.groups()\<close> for a pattern with four groups (or
  two): \<open>None\<close> when there is no match, and a group that took no part reads as \<open>None\<close>.
\<close>

definition re_match :: "regex \<Rightarrow> bool \<Rightarrow> string \<Rightarrow> (nat \<rightharpoonup> string) option" where
  "re_match r ic s = (case run r ic (s, []) of [] \<Rightarrow> None | st # _ \<Rightarrow> Some (map_of (snd st)))"

definition digit :: regex where
  "digit = Cls ''0123456789''"

definition digit05 :: regex where
  "digit05 = Cls ''012345''"

definition spaces :: regex where
  "spaces = Star (Cls '' '')"

fun cats :: "regex list \<Rightarrow> regex" where
  "cats [] = Star (Cls [])"
| "cats [r] = r"
| "cats (r # rs) = Cat r (cats rs)"

text \<open>
  The degree signs are the characters 0xB0 and 0xBA; the prime and the double prime of
  the two unicode patterns (U+2032, U+2033) lie outside \<open>char\<close> and are left out of
  their classes. The two patterns with a direction are byte strings in the source, so
  that their class also holds the byte 0xC2 of the UTF-8 encoding of the degree signs.
\<close>

definition degree_marks :: "char list" where
  "degree_marks = [CHR '' '', CHR '':'', CHR 0xB0, CHR 0xBA, CHR ''d'']"

definition degree_marks_bytes :: "char list" where
  "degree_marks_bytes = [CHR '' '', CHR '':'', CHR 0xC2, CHR 0xB0, CHR 0xC2, CHR 0xBA, CHR ''d'']"

definition minute_marks :: "char list" where
  "minute_marks = [CHR '':'', CHR 0x27, CHR ''m'']"

definition second_marks :: "char list" where
  "second_marks = [CHR '':'', CHR ''?'', CHR 0x22, CHR ''s'']"

text \<open>The part shared by the two patterns: everything after the group of the degrees.\<close>

definition dms_tail :: "regex \<Rightarrow> regex" where
  "dms_tail dir =
     cats [spaces, Cls degree_marks, spaces,
           Opt (Grp 2 (Cat (Opt digit05) digit)), spaces,
           Opt (Cls minute_marks), spaces,
           Opt (Grp 3 (cats [Opt digit05, digit, Opt (cats [Cls ''.'', digit, Star digit])])), spaces,
           Opt (Cls second_marks), spaces,
           Opt (Grp 4 dir), Eos]"

definition latitude_dms_regex :: regex where
  "latitude_dms_regex =
     Cat (Grp 1 (cats [Opt (Cls ''-''), digit, Opt digit]))
       (dms_tail (Alt (Cls ''N'') (Alt (Cls ''n'') (Alt (Cls ''S'') (Cls ''s'')))))"

definition longitude_dms_regex :: regex where
  "longitude_dms_regex =
     Cat (Grp 1 (Alt (cats [Opt (Cls ''-''), Cls ''1'', Cls ''012345678'', digit])
                     (cats [Opt (Cls ''0''), digit, Opt digit])))
       (dms_tail (Alt (Cls ''E'') (Alt (Cls ''e'') (Alt (Cls ''W'') (Cls ''w'')))))"

definition latitude_decimal_with_direction_regex :: regex where
  "latitude_decimal_with_direction_regex =
     cats [Grp 1 (cats [Opt (Cls ''-''), digit, digit, Cls ''.'', digit, Star digit]),
           spaces, Opt (Cls degree_marks_bytes), spaces,
           Grp 2 (Alt (Cls ''N'') (Alt (Cls ''n'') (Alt (Cls ''S'') (Cls ''s'')))), Eos]"

definition longitude_decimal_with_direction_regex :: regex where
  "longitude_decimal_with_direction_regex =
     cats [Grp 1 (Alt (cats [Opt (Cls ''-''), Cls ''1'', Cls ''012345678'', digit])
                      (cats [Opt (Cls ''0''), digit, digit, Cls ''.'', digit, Star digit])),
           spaces, Opt (Cls degree_marks_bytes), spaces,
           Grp 2 (Alt (Cls ''E'') (Alt (Cls ''e'') (Alt (Cls ''W'') (Cls ''w'')))), Eos]"

section \<open>The coordinate normalizer\<close>

text \<open>
  \<open>float(s)\<close> on text: an optional sign, digits with an optional point and at least one
  digit, an optional exponent; any other text is taken to raise \<open>ValueError\<close>. (Python
  also reads \<open>inf\<close> and \<open>nan\<close> and skips white space at the ends; the text that reaches
  \<open>float\<close> here is a group of a pattern, or starts with a digit or a minus sign and ends
  with a digit.) A Python float is a binary double; the model returns the real number the
  text denotes, without rounding.
\<close>

definition float :: "string \<Rightarrow> py_error + real" where
  "float s =
     (let (neg, body) = (case s of
                           c # r \<Rightarrow> if c = CHR ''-'' then (True, r)
                                     else if c = CHR ''+'' then (False, r) else (False, s)
                         | [] \<Rightarrow> (False, s));
          mant = takeWhile (\<lambda>c. c \<notin> set ''eE'') body;
          ex = dropWhile (\<lambda>c. c \<notin> set ''eE'') body;
          ip = takeWhile is_digit mant;
          rest = dropWhile is_digit mant;
          fp = (case rest of [] \<Rightarrow> Some []
                | c # r \<Rightarrow> if c = CHR ''.'' \<and> list_all is_digit r then Some r else None);
          e = (case ex of [] \<Rightarrow> Inr 0 | _ # r \<Rightarrow> long r)
      in case (fp, e) of
           (Some f, Inr n) \<Rightarrow>
             if ip @ f = [] then Inl ValueError
             else let m = real (nat_of_digits (ip @ f)) / 10 ^ length f;
                      x = (if n \<ge> 0 then m * 10 ^ nat n else m / 10 ^ nat (- n))
                  in Inr (if neg then - x else x)
         | _ \<Rightarrow> Inl ValueError)"

text \<open>\<open>x or 0\<close> for a group of a match, then the conversion to a float.\<close>

definition float_or_zero :: "string option \<Rightarrow> py_error + real" where
  "float_or_zero g = (case g of None \<Rightarrow> Inr 0 | Some s \<Rightarrow> if s = [] then Inr 0 else float s)"

text \<open>
  Modelled from the spec: \<open>degrees_to_decimal\<close> is imported by the script and is not among
  its sources. The spec gives the conversion as \<open>d + m/60 + s/3600\<close>.
\<close>

definition degrees_to_decimal ::
  "string option \<Rightarrow> string option \<Rightarrow> string option \<Rightarrow> py_error + real" where
  "degrees_to_decimal d m s =
     (case (float_or_zero d, float_or_zero m, float_or_zero s) of
        (Inr dv, Inr mv, Inr sv) \<Rightarrow> Inr (dv + mv / 60 + sv / 3600)
      | _ \<Rightarrow> Inl ValueError)"

text \<open>
  Modelled from the spec: \<open>direction_sign\<close> is imported by the script and is not among its
  sources. The spec gives the sign of the cardinal letter: negative for S and W.
\<close>

definition direction_sign :: "string option \<Rightarrow> real" where
  "direction_sign c = (if c \<in> {Some ''S'', Some ''s'', Some ''W'', Some ''w''} then - 1 else 1)"

text \<open>\<open>s.strip(chars)\<close> and \<open>s.replace(a, b)\<close> for single characters.\<close>

definition strip :: "char list \<Rightarrow> string \<Rightarrow> string" where
  "strip cs s = rev (dropWhile (\<lambda>c. c \<in> set cs) (rev (dropWhile (\<lambda>c. c \<in> set cs) s)))"

definition replace :: "char \<Rightarrow> char \<Rightarrow> string \<Rightarrow> string" where
  "replace a b s = map (\<lambda>c. if c = a then b else c) s"

text \<open>
  \<open>re.sub(beginning_re, u'', s)\<close> removes the leading run of characters that are neither
  digits nor the minus sign; \<open>re.sub(end_re, u'', s)\<close> removes the trailing run of
  characters that are not digits.
\<close>

definition sub_beginning_re :: "string \<Rightarrow> string" where
  "sub_beginning_re s = dropWhile (\<lambda>c. \<not> is_digit c \<and> c \<noteq> CHR ''-'') s"

definition sub_end_re :: "string \<Rightarrow> string" where
  "sub_end_re s = rev (dropWhile (\<lambda>c. \<not> is_digit c) (rev s))"

text \<open>
  \<open>safe_decode\<close>, which the script imports, turns a byte string into text; the model has
  text only, and leaves it out.

  \<open>latlon_to_floats\<close> treats the latitude (lines 187 to 202) and the longitude (lines 204
  to 219) alike, each with its own two patterns; \<open>coordinate_to_float\<close> is that common
  part, followed by the \<open>float(...)\<close> of line 221. As in the source, the branch of the
  degrees, minutes and seconds computes \<open>sign\<close> and does not use it.
\<close>

definition coordinate_to_float :: "regex \<Rightarrow> regex \<Rightarrow> string \<Rightarrow> py_error + real" where
  "coordinate_to_float dms_regex dir_regex text =
     (let t = replace (CHR '','') (CHR ''.'') (strip '' ,;|'' text);
          dms = re_match dms_regex True t;
          dir = re_match dir_regex True t
      in case dms of
           Some g \<Rightarrow>
             (let sign = direction_sign (g 4)
              in degrees_to_decimal (g 1) (g 2) (g 3))
         | None \<Rightarrow>
             (case dir of
                Some g \<Rightarrow>
                  (let sign = direction_sign (g 2)
                   in case g 1 of
                        None \<Rightarrow> Inl TypeError
                      | Some d \<Rightarrow> (case float d of Inl e \<Rightarrow> Inl e | Inr x \<Rightarrow> Inr (x * sign)))
              | None \<Rightarrow> float (sub_end_re (sub_beginning_re t))))"

definition latlon_to_floats :: "string \<Rightarrow> string \<Rightarrow> py_error + real \<times> real" where
  "latlon_to_floats latitude longitude =
     (case coordinate_to_float latitude_dms_regex latitude_decimal_with_direction_regex latitude of
        Inl e \<Rightarrow> Inl e
      | Inr la \<Rightarrow>
          (case coordinate_to_float longitude_dms_regex longitude_decimal_with_direction_regex
                  longitude of
             Inl e \<Rightarrow> Inl e
           | Inr lo \<Rightarrow> Inr (la, lo)))"

section \<open>The collaborators\<close>

text \<open>
  A candidate language of the geo index (a dictionary with the keys \<open>lang\<close> and
  \<open>default\<close>) and the language properties of one enclosing polygon.
\<close>

record candidate =
  lang :: string
  is_default :: bool

record language_prop =
  admin_level :: int
  prop_languages :: "candidate list"

text \<open>
  What the script imports and does not define: the tables of languages, the two markers
  of the disambiguation, the disambiguation itself, the lookup in the geo index (with the
  index it was loaded from), the address formatter and the escaping of a field. They are
  parameters of the model. \<open>country_and_languages\<close> gives no country as \<open>None\<close> and no
  candidates as the empty list.
\<close>

record env =
  languages :: "string set"
  WELL_REPRESENTED_LANGUAGES :: "string set"
  WELL_REPRESENTED_LANGUAGE_COUNTRIES :: "string \<Rightarrow> string set"
  official_languages :: "string \<Rightarrow> (string \<times> bool) list"
  AMBIGUOUS_LANGUAGE :: string
  UNKNOWN_LANGUAGE :: string
  disambiguate_language :: "string \<Rightarrow> (string \<times> bool) list \<Rightarrow> string"
  country_and_languages :: "real \<Rightarrow> real \<Rightarrow> string option \<times> candidate list \<times> language_prop list"
  format_address :: "string \<Rightarrow> tags \<Rightarrow> bool \<Rightarrow> string option"
  tsv_string :: "string \<Rightarrow> string"
  safe_encode :: "string \<Rightarrow> string"

section \<open>The language attribution engine\<close>

definition normalize_osm_name_tag :: "string \<Rightarrow> bool \<Rightarrow> string" where
  "normalize_osm_name_tag tag script =
     (let norm = after_last (CHR '':'') tag
      in if \<not> script then norm else before_first (CHR ''_'') norm)"

text \<open>Lines 246 to 253: the alternates and, for each text, the languages that carry it.\<close>

definition is_alternate :: "env \<Rightarrow> string \<Rightarrow> string \<Rightarrow> bool" where
  "is_alternate E tag_prefix k =
     (prefix (tag_prefix @ '':'') k \<and> normalize_osm_name_tag k True \<in> languages E)"

fun collect_alternates ::
  "env \<Rightarrow> string \<Rightarrow> tags \<Rightarrow> (string \<times> string) list \<times> (string \<times> string list) list
     \<Rightarrow> (string \<times> string) list \<times> (string \<times> string list) list" where
  "collect_alternates E tag_prefix [] acc = acc"
| "collect_alternates E tag_prefix ((k, v) # rest) acc =
     collect_alternates E tag_prefix rest
       (if is_alternate E tag_prefix k
        then (let lang = after_last (CHR '':'') k
              in (fst acc @ [(lang, v)], dd_append v lang (snd acc)))
        else acc)"

text \<open>
  Lines 260 to 270: the number of default entries and the languages of the regional
  polygons (\<open>admin_level > 0\<close>) and of the others. The script also gathers
  \<open>regional_langs\<close> and never reads it.
\<close>

definition count_defaults :: "candidate list \<Rightarrow> nat" where
  "count_defaults ls = length (filter is_default ls)"

definition regional_defaults_of :: "language_prop list \<Rightarrow> nat" where
  "regional_defaults_of props =
     sum_list (map (\<lambda>p. count_defaults (prop_languages p)) (filter (\<lambda>p. admin_level p > 0) props))"

definition country_defaults_of :: "language_prop list \<Rightarrow> nat" where
  "country_defaults_of props =
     sum_list (map (\<lambda>p. count_defaults (prop_languages p))
                 (filter (\<lambda>p. \<not> admin_level p > 0) props))"

definition country_langs_of :: "language_prop list \<Rightarrow> string set" where
  "country_langs_of props =
     set (concat (map (\<lambda>p. map lang (prop_languages p)) (filter (\<lambda>p. \<not> admin_level p > 0) props)))"

text \<open>What the second loop reads and does not change.\<close>

record locals =
  candidate_languages :: "candidate list"
  default_langs :: "string set"
  equivalent_alternatives :: "(string \<times> string list) list"
  has_alternate_names :: nat
  ambiguous_alternatives :: "string set"
  regional_defaults :: nat
  country_defaults :: nat
  country_langs :: "string set"

text \<open>
  What the second loop changes: the result, the ambiguous texts already handled, and the
  calls of \<open>disambiguate_language\<close> made so far, each with its two arguments.
\<close>

record attribution =
  name_language :: "(string \<times> string list) list"
  ambiguous_already_seen :: "string set"
  calls :: "(string \<times> (string \<times> bool) list) list"

text \<open>The test of line 289 without its first conjunct: the tag counts as the bare tag.\<close>

definition is_bare :: "string \<Rightarrow> string \<Rightarrow> bool" where
  "is_bare tag_prefix k =
     (let has_colon = (CHR '':'' \<in> set tag_prefix);
          tag_first_component = before_first (CHR '':'') tag_prefix;
          tag_last_component = after_last (CHR '':'') tag_prefix
      in prefix tag_first_component k \<and> (has_colon \<or> CHR '':'' \<notin> set k) \<and>
         normalize_osm_name_tag k True = tag_last_component)"

text \<open>
  Lines 275 to 305, the body of the second loop for one tag. \<open>None\<close> is the
  \<open>return None, None\<close> that ends the function. \<open>candidate_languages[0]\<close> is read as
  \<open>hd\<close>: line 238 has made sure that the list is not empty.
\<close>

definition attribute_item ::
  "env \<Rightarrow> string \<Rightarrow> locals \<Rightarrow> string \<times> string \<Rightarrow> attribution \<Rightarrow> attribution option" where
  "attribute_item E tag_prefix L kv st =
     (let k = fst kv; v = snd kv in
      if prefix (tag_prefix @ '':'') k then
        if v \<notin> ambiguous_alternatives L then
          (let norm = normalize_osm_name_tag k False;
               norm_sans_script = normalize_osm_name_tag k True
           in if norm \<in> languages E \<or> norm_sans_script \<in> languages E
              then Some (st\<lparr>name_language := dd_append norm v (name_language st)\<rparr>)
              else Some st)
        else if v \<notin> ambiguous_already_seen st then
          (let langs = map (\<lambda>l. (l, l \<in> default_langs L)) (dd_get v (equivalent_alternatives L));
               l = disambiguate_language E v langs
           in Some (st\<lparr>name_language :=
                          (if l \<noteq> AMBIGUOUS_LANGUAGE E \<and> l \<noteq> UNKNOWN_LANGUAGE E
                           then dd_append l v (name_language st) else name_language st),
                        ambiguous_already_seen := insert v (ambiguous_already_seen st),
                        calls := calls st @ [(v, langs)]\<rparr>))
        else Some st
      else if has_alternate_names L = 0 \<and> is_bare tag_prefix k then
        if length (candidate_languages L) = 1 then
          Some (st\<lparr>name_language :=
                      dd_append (lang (hd (candidate_languages L))) v (name_language st)\<rparr>)
        else
          (let langs = map (\<lambda>c. (lang c, is_default c)) (candidate_languages L);
               l = disambiguate_language E v langs;
               default_lang = lang (hd (candidate_languages L));
               st' = st\<lparr>calls := calls st @ [(v, langs)]\<rparr>
           in if l = AMBIGUOUS_LANGUAGE E then None
              else if l = UNKNOWN_LANGUAGE E \<and> card (default_langs L) = 1
              then Some (st'\<lparr>name_language := dd_append default_lang v (name_language st)\<rparr>)
              else if l \<noteq> UNKNOWN_LANGUAGE E then
                if l \<noteq> default_lang \<and> l \<in> country_langs L \<and> country_defaults L > 1 \<and>
                   regional_defaults L > 0 \<and> l \<in> WELL_REPRESENTED_LANGUAGES E
                then None
                else Some (st'\<lparr>name_language := dd_append l v (name_language st)\<rparr>)
              else None)
      else Some st)"

fun attribute_loop ::
  "env \<Rightarrow> string \<Rightarrow> locals \<Rightarrow> tags \<Rightarrow> attribution \<Rightarrow> attribution option" where
  "attribute_loop E tag_prefix L [] st = Some st"
| "attribute_loop E tag_prefix L (kv # rest) st =
     (case attribute_item E tag_prefix L kv st of
        None \<Rightarrow> None
      | Some st' \<Rightarrow> attribute_loop E tag_prefix L rest st')"

text \<open>Lines 241 to 270: everything computed before the second loop.\<close>

definition make_locals :: "env \<Rightarrow> string \<Rightarrow> tags \<Rightarrow> candidate list \<Rightarrow> language_prop list \<Rightarrow> locals" where
  "make_locals E tag_prefix value cands props =
     (let alt = collect_alternates E tag_prefix value ([], [])
      in \<lparr>candidate_languages = cands,
          default_langs = set (map lang (filter is_default cands)),
          equivalent_alternatives = snd alt,
          has_alternate_names = length (fst alt),
          ambiguous_alternatives = set (map fst (filter (\<lambda>kv. length (snd kv) > 1) (snd alt))),
          regional_defaults = regional_defaults_of props,
          country_defaults = country_defaults_of props,
          country_langs = country_langs_of props\<rparr>)"

text \<open>
  Lines 225 to 239: the coordinates are read and the point is looked up. \<open>None\<close> is the
  \<open>return None, None\<close> of these lines.
\<close>

definition locate :: "env \<Rightarrow> tags \<Rightarrow> (string \<times> candidate list \<times> language_prop list) option" where
  "locate E value =
     (case (map_of value ''lat'', map_of value ''lon'') of
        (Some la, Some lo) \<Rightarrow>
          (case latlon_to_floats la lo of
             Inl e \<Rightarrow> None
           | Inr (latitude, longitude) \<Rightarrow>
               (case country_and_languages E latitude longitude of
                  (Some country, cands, props) \<Rightarrow>
                    if country \<noteq> [] \<and> cands \<noteq> [] then Some (country, cands, props) else None
                | (None, cands, props) \<Rightarrow> None))
      | _ \<Rightarrow> None)"

text \<open>
  \<open>get_language_names\<close> with the state of the second loop as it stands at line 307, and
  the function itself, which returns the country and \<open>name_language\<close>. The argument
  \<open>key\<close> of the source is not used by it; \<open>language_rtree\<close> is part of the lookup.
\<close>

definition get_language_names_state :: "env \<Rightarrow> tags \<Rightarrow> string \<Rightarrow> (string \<times> attribution) option" where
  "get_language_names_state E value tag_prefix =
     (case locate E value of
        None \<Rightarrow> None
      | Some (country, cands, props) \<Rightarrow>
          (case attribute_loop E tag_prefix (make_locals E tag_prefix value cands props) value
                  \<lparr>name_language = [], ambiguous_already_seen = {}, calls = []\<rparr> of
             None \<Rightarrow> None
           | Some st \<Rightarrow> Some (country, st)))"

definition get_language_names ::
  "env \<Rightarrow> tags \<Rightarrow> string \<Rightarrow> (string \<times> (string \<times> string list) list) option" where
  "get_language_names E value tag_prefix =
     map_option (\<lambda>r. (fst r, name_language (snd r))) (get_language_names_state E value tag_prefix)"

section \<open>The training-set builders\<close>

text \<open>
  A row handed to \<open>writer.writerow\<close>, as the list of its fields. Each builder is given
  by the rows it writes for one record of the stream, and then for the whole stream.
  The counter \<open>i\<close> and the progress messages are left out.

  \<open>name_language\<close> (here \<open>names\<close>) is a plain dictionary, and Python 2 iterates it in an order of its
  own; the model iterates it in the order of insertion.

  \<open>s.strip()\<close> removes white space at both ends. A value is a byte string when it is
  pure ASCII and a unicode string otherwise, and XML has no characters 0x1C to 0x1F, so
  that for both the white space below code 256 that can occur is the following.
\<close>

type_synonym row = "string list"

definition whitespace :: "char list" where
  "whitespace = [CHR 0x09, CHR 0x0A, CHR 0x0B, CHR 0x0C, CHR 0x0D, CHR '' '', CHR 0x85, CHR 0xA0]"

definition strip_ws :: "string \<Rightarrow> string" where
  "strip_ws s = strip whitespace s"

text \<open>\<open>for key in remove_keys: value.pop(key, None)\<close>.\<close>

definition strip_keys :: "tags \<Rightarrow> string list \<Rightarrow> tags" where
  "strip_keys value ignore_keys = foldl (\<lambda>d k. od_pop k d) value ignore_keys"

definition OSM_IGNORE_KEYS :: "string list" where
  "OSM_IGNORE_KEYS = [''house'']"

definition NAME_KEYS :: "string list" where
  "NAME_KEYS = [''name'', ''addr:housename'']"

definition COUNTRY_KEYS :: "string list" where
  "COUNTRY_KEYS = [''country'', ''country_name'', ''addr:country'']"

definition POSTAL_KEYS :: "string list" where
  "POSTAL_KEYS = [''postcode'', ''postal_code'', ''addr:postcode'', ''addr:postal_code'']"

text \<open>Lines 326 to 333 of \<open>build_ways_training_data\<close>.\<close>

definition ways_rows :: "env \<Rightarrow> tags \<Rightarrow> row list" where
  "ways_rows E value =
     (case get_language_names E value ''name'' of
        None \<Rightarrow> []
      | Some (country, names) \<Rightarrow>
          if names = [] then []
          else concat (map (\<lambda>(k, v).
                 concat (map (\<lambda>s. if k \<in> languages E then [[k, country, tsv_string E s]] else []) v))
                 names))"

definition build_ways_training_data :: "env \<Rightarrow> element list \<Rightarrow> row list" where
  "build_ways_training_data E infile =
     concat (map (\<lambda>(key, value). ways_rows E value) (fst (parse_osm WAYS_RELATIONS infile)))"

text \<open>Lines 638 to 648 of \<open>build_address_training_data\<close>.\<close>

definition address_rows :: "env \<Rightarrow> tags \<Rightarrow> row list" where
  "address_rows E value =
     (case get_language_names E value ''addr:street'' of
        None \<Rightarrow> []
      | Some (country, street_language) \<Rightarrow>
          if street_language = [] then []
          else concat (map (\<lambda>(k, v).
                 concat (map (\<lambda>s. let s' = strip_ws s
                                  in if s' = [] then []
                                     else if k \<in> languages E then [[k, country, tsv_string E s']]
                                     else []) v))
                 street_language))"

definition build_address_training_data :: "env \<Rightarrow> element list \<Rightarrow> row list" where
  "build_address_training_data E infile =
     concat (map (\<lambda>(key, value). address_rows E value) (fst (parse_osm ALL_OSM_TAGS infile)))"

text \<open>
  Lines 669 to 677 of \<open>build_venue_training_data\<close>: the first of \<open>amenity\<close> and
  \<open>building\<close> whose stripped value is neither \<open>yes\<close>, \<open>y\<close> nor empty.
\<close>

fun venue_type_of :: "tags \<Rightarrow> string list \<Rightarrow> string option" where
  "venue_type_of value [] = None"
| "venue_type_of value (key # keys) =
     (let amenity = strip_ws (case map_of value key of None \<Rightarrow> [] | Some a \<Rightarrow> a)
      in if amenity \<in> {''yes'', ''y''} then venue_type_of value keys
         else if amenity \<noteq> [] then Some (key @ '':'' @ amenity)
         else venue_type_of value keys)"

text \<open>Lines 665 to 686 of \<open>build_venue_training_data\<close>.\<close>

definition venue_rows :: "env \<Rightarrow> tags \<Rightarrow> row list" where
  "venue_rows E value =
     (case get_language_names E value ''name'' of
        None \<Rightarrow> []
      | Some (country, names) \<Rightarrow>
          if names = [] then []
          else (case venue_type_of value [''amenity'', ''building''] of
                  None \<Rightarrow> []
                | Some venue_type \<Rightarrow>
                    concat (map (\<lambda>(k, v).
                      concat (map (\<lambda>s. let s' = strip_ws s
                                       in if k \<in> languages E
                                          then [[k, country, safe_encode E venue_type, tsv_string E s']]
                                          else []) v))
                      names)))"

definition build_venue_training_data :: "env \<Rightarrow> element list \<Rightarrow> row list" where
  "build_venue_training_data E infile =
     concat (map (\<lambda>(key, value). venue_rows E value) (fst (parse_osm ALL_OSM_TAGS infile)))"

text \<open>
  Lines 487 to 493 of \<open>build_address_format_training_data_limited\<close>: the copy of the
  tags is changed key by key, over the list of keys taken before the loop.
\<close>

fun localize_keys :: "string \<Rightarrow> bool \<Rightarrow> string list \<Rightarrow> tags \<Rightarrow> tags" where
  "localize_keys l single_language [] address_dict = address_dict"
| "localize_keys l single_language (k # ks) address_dict =
     localize_keys l single_language ks
       (let namespaced_val = k @ '':'' @ l
        in case map_of address_dict namespaced_val of
             Some x \<Rightarrow> od_set k x address_dict
           | None \<Rightarrow> if \<not> single_language then od_pop k address_dict else address_dict)"

definition localize :: "string \<Rightarrow> bool \<Rightarrow> tags \<Rightarrow> tags" where
  "localize l single_language value = localize_keys l single_language (map fst value) value"

text \<open>
  Lines 467 to 502 of \<open>build_address_format_training_data_limited\<close>. The coordinates are
  only converted here (a failure skips the record); the lookup is made by
  \<open>get_language_names\<close>.
\<close>

definition limited_rows :: "env \<Rightarrow> tags \<Rightarrow> row list" where
  "limited_rows E value0 =
     (case (map_of value0 ''lat'', map_of value0 ''lon'') of
        (Some la, Some lo) \<Rightarrow>
          (case latlon_to_floats la lo of
             Inl e \<Rightarrow> []
           | Inr coords \<Rightarrow>
               (let value = strip_keys value0 (NAME_KEYS @ COUNTRY_KEYS @ POSTAL_KEYS @ OSM_IGNORE_KEYS)
                in if value = [] then []
                   else (case get_language_names E value ''addr:street'' of
                           None \<Rightarrow> []
                         | Some (country, names) \<Rightarrow>
                             if names = [] then []
                             else (let single_language = (length names = 1)
                                   in concat (map (\<lambda>(l, val).
                                        if l \<notin> languages E then []
                                        else (let address_dict = localize l single_language value
                                              in if address_dict = [] then []
                                                 else (case format_address E country address_dict False of
                                                         None \<Rightarrow> []
                                                       | Some formatted_address_untagged \<Rightarrow>
                                                           [[l, country,
                                                             tsv_string E formatted_address_untagged]])))
                                        names)))))
      | _ \<Rightarrow> [])"

definition build_address_format_training_data_limited :: "env \<Rightarrow> element list \<Rightarrow> row list" where
  "build_address_format_training_data_limited E infile =
     concat (map (\<lambda>(key, value). limited_rows E value) (fst (parse_osm ALL_OSM_TAGS infile)))"

text \<open>
  Lines 387 to 419 of \<open>build_address_format_training_data\<close>. Lines 387 to 394 are the
  same steps as lines 225 to 239 of the engine, hence \<open>locate\<close>.
\<close>

definition format_rows :: "env \<Rightarrow> bool \<Rightarrow> tags \<Rightarrow> row list" where
  "format_rows E tag_components value0 =
     (case locate E value0 of
        None \<Rightarrow> []
      | Some (country, cands, language_props) \<Rightarrow>
          (let value = strip_keys value0 OSM_IGNORE_KEYS;
               language =
                 (if tag_components then
                    if length cands = 1
                    then Some (Some (lang (hd cands)))
                    else (case map_of value ''addr:street'' of
                            None \<Rightarrow> None
                          | Some street \<Rightarrow>
                              Some (Some (disambiguate_language E street
                                (map (\<lambda>c. (lang c, is_default c)) cands))))
                  else Some None)
           in case language of
                None \<Rightarrow> []
              | Some language \<Rightarrow>
                  (case format_address E country value tag_components of
                     None \<Rightarrow> []
                   | Some fa \<Rightarrow>
                       (let formatted_address = tsv_string E fa
                        in if formatted_address = [] \<or> strip_ws formatted_address = [] then []
                           else if tag_components
                           then [[(case language of None \<Rightarrow> [] | Some l \<Rightarrow> l), country,
                                  formatted_address]]
                           else [[formatted_address]]))))"

definition build_address_format_training_data :: "env \<Rightarrow> element list \<Rightarrow> bool \<Rightarrow> row list" where
  "build_address_format_training_data E infile tag_components =
     concat (map (\<lambda>(key, value). format_rows E tag_components value)
               (fst (parse_osm ALL_OSM_TAGS infile)))"

section \<open>The toponym builder\<close>

text \<open>
  Lines 558 to 583 of \<open>build_toponym_training_data\<close>. \<open>official_languages[country]\<close> is
  an ordered dictionary from a language to its default flag, empty for a country the
  table does not have; \<open>top_lang\<close> is its first key, or \<open>None\<close>.
\<close>

definition top_lang_of :: "env \<Rightarrow> string \<Rightarrow> string option" where
  "top_lang_of E country = (case official_languages E country of [] \<Rightarrow> None | kv # _ \<Rightarrow> Some (fst kv))"

definition toponym_default_langs :: "env \<Rightarrow> string \<Rightarrow> string set" where
  "toponym_default_langs E country =
     (let official = official_languages E country;
          default_langs = set (map fst (filter snd official))
      in case top_lang_of E country of
           None \<Rightarrow> default_langs
         | Some top_lang \<Rightarrow>
             if top_lang \<notin> WELL_REPRESENTED_LANGUAGES E \<and> card default_langs > 1
             then default_langs - WELL_REPRESENTED_LANGUAGES E
             else default_langs)"

definition toponym_valid_languages :: "env \<Rightarrow> string \<Rightarrow> candidate list \<Rightarrow> string set" where
  "toponym_valid_languages E country cands =
     (let valid_languages = set (map lang cands)
      in (valid_languages -
            {l \<in> valid_languages. l \<in> WELL_REPRESENTED_LANGUAGES E \<and>
                                  country \<notin> WELL_REPRESENTED_LANGUAGE_COUNTRIES E l})
         \<union> toponym_default_langs E country)"

text \<open>Lines 594 to 602: the language a qualified tag stands for, if any.\<close>

definition toponym_tag_language :: "env \<Rightarrow> string \<Rightarrow> string option" where
  "toponym_tag_language E k =
     (let norm = normalize_osm_name_tag k False;
          norm_sans_script = normalize_osm_name_tag k True
      in if norm \<in> languages E then Some norm
         else if norm_sans_script \<in> languages E then Some norm_sans_script
         else None)"

text \<open>
  Lines 588 to 606: the loop over the tags, with \<open>have_qualified_names\<close> and
  \<open>name_language\<close>. The keys of \<open>name_language\<close> are languages or, through \<open>top_lang\<close>,
  \<open>None\<close>.
\<close>

fun toponym_qualified ::
  "env \<Rightarrow> string set \<Rightarrow> tags \<Rightarrow> bool \<times> (string option \<times> string list) list
     \<Rightarrow> bool \<times> (string option \<times> string list) list" where
  "toponym_qualified E valid_languages [] acc = acc"
| "toponym_qualified E valid_languages ((k, v) # rest) acc =
     toponym_qualified E valid_languages rest
       (if \<not> prefix ''name:'' k then acc
        else case toponym_tag_language E k of
               None \<Rightarrow> acc
             | Some l \<Rightarrow> if l \<in> valid_languages then (True, dd_append (Some l) v (snd acc)) else acc)"

text \<open>Lines 562 and 608 to 609: the bare name as a last resort.\<close>

definition regional_langs_of :: "language_prop list \<Rightarrow> candidate list" where
  "regional_langs_of props = concat (map prop_languages (filter (\<lambda>p. admin_level p > 0) props))"

definition toponym_names ::
  "env \<Rightarrow> tags \<Rightarrow> string \<Rightarrow> candidate list \<Rightarrow> language_prop list
     \<Rightarrow> (string option \<times> string list) list" where
  "toponym_names E value country cands props =
     (let valid_languages = toponym_valid_languages E country cands;
          q = toponym_qualified E valid_languages value (False, [])
      in case map_of value ''name'' of
           Some name \<Rightarrow>
             if \<not> fst q \<and> length (regional_langs_of props) \<le> 1 \<and> card valid_languages = 1
             then dd_append (top_lang_of E country) name (snd q)
             else snd q
         | None \<Rightarrow> snd q)"

text \<open>
  Lines 544 to 616. \<open>csv\<close> writes the language \<open>None\<close> as the empty field.
\<close>

definition toponym_rows :: "env \<Rightarrow> tags \<Rightarrow> row list" where
  "toponym_rows E value =
     (if \<not> list_ex (\<lambda>kv. prefix ''name'' (fst kv)) value then []
      else case locate E value of
             None \<Rightarrow> []
           | Some (country, cands, props) \<Rightarrow>
               if toponym_valid_languages E country cands = {} then []
               else concat (map (\<lambda>(k, v).
                      concat (map (\<lambda>s. let s' = strip_ws s
                                       in if s' = [] then []
                                          else [[(case k of None \<Rightarrow> [] | Some l \<Rightarrow> l), country,
                                                 tsv_string E s']]) v))
                      (toponym_names E value country cands props)))"

definition build_toponym_training_data :: "env \<Rightarrow> element list \<Rightarrow> row list" where
  "build_toponym_training_data E infile =
     concat (map (\<lambda>(key, value). toponym_rows E value) (fst (parse_osm ALL_OSM_TAGS infile)))"

section \<open>Notions used in the statements\<close>

text \<open>
  The decoding in the words of the specification (section 8): a node below \<open>10^15\<close>, a
  way from \<open>10^15\<close> to below \<open>2 * 10^15\<close>, a relation from there on.
\<close>

definition decode :: "int \<Rightarrow> string \<times> int" where
  "decode n =
     (if n < 10 ^ 15 then (''node'', n)
      else if n < 2 * 10 ^ 15 then (''way'', n - 10 ^ 15)
      else (''relation'', n - 2 * 10 ^ 15))"

text \<open>
  The languages that share a text: the last components of the alternate tags that carry
  it, in the order of the tags; and the pairs handed to the disambiguation for it.
\<close>

definition languages_sharing :: "env \<Rightarrow> string \<Rightarrow> tags \<Rightarrow> string \<Rightarrow> string list" where
  "languages_sharing E tag_prefix value v =
     map (\<lambda>kv. after_last (CHR '':'') (fst kv))
       (filter (\<lambda>kv. is_alternate E tag_prefix (fst kv) \<and> snd kv = v) value)"

definition candidate_pairs ::
  "env \<Rightarrow> string \<Rightarrow> tags \<Rightarrow> candidate list \<Rightarrow> string \<Rightarrow> (string \<times> bool) list" where
  "candidate_pairs E tag_prefix value cands v =
     map (\<lambda>l. (l, l \<in> set (map lang (filter is_default cands))))
       (languages_sharing E tag_prefix value v)"

text \<open>
  What the second loop keeps true of an ambiguous text \<open>v\<close>: before its first occurrence
  nothing is known of it; afterwards it has been handed to the disambiguation once, and
  it stands under the language that was returned, or nowhere.
\<close>

definition amb_inv :: "env \<Rightarrow> locals \<Rightarrow> string \<Rightarrow> attribution \<Rightarrow> bool" where
  "amb_inv E L v st =
     (let langs = map (\<lambda>l. (l, l \<in> default_langs L)) (dd_get v (equivalent_alternatives L));
          r = disambiguate_language E v langs
      in (v \<notin> ambiguous_already_seen st \<longrightarrow>
            filter (\<lambda>c. fst c = v) (calls st) = [] \<and>
            (\<forall>l. v \<notin> set (dd_get l (name_language st)))) \<and>
         (v \<in> ambiguous_already_seen st \<longrightarrow>
            filter (\<lambda>c. fst c = v) (calls st) = [(v, langs)] \<and>
            (\<forall>l. v \<in> set (dd_get l (name_language st)) \<longrightarrow>
                 l = r \<and> r \<noteq> AMBIGUOUS_LANGUAGE E \<and> r \<noteq> UNKNOWN_LANGUAGE E) \<and>
            (\<forall>l. count_list (dd_get l (name_language st)) v \<le> 1)))"

text \<open>
  A small world for the examples: six points, each with its country, its candidates and
  its polygons, six known languages, and a disambiguation that knows three texts.
\<close>

definition demo_lookup :: "real \<Rightarrow> real \<Rightarrow> string option \<times> candidate list \<times> language_prop list" where
  "demo_lookup latitude longitude =
     (if latitude = 1 then
        (Some ''lb'',
         [\<lparr>lang = ''ar'', is_default = True\<rparr>, \<lparr>lang = ''fr'', is_default = False\<rparr>,
          \<lparr>lang = ''en'', is_default = False\<rparr>],
         [\<lparr>admin_level = 0,
           prop_languages = [\<lparr>lang = ''ar'', is_default = True\<rparr>, \<lparr>lang = ''fr'', is_default = False\<rparr>,
                             \<lparr>lang = ''en'', is_default = False\<rparr>]\<rparr>])
      else if latitude = 2 then
        (Some ''fr'', [\<lparr>lang = ''fr'', is_default = True\<rparr>],
         [\<lparr>admin_level = 0, prop_languages = [\<lparr>lang = ''fr'', is_default = True\<rparr>]\<rparr>])
      else if latitude = 3 then
        (Some ''be'',
         [\<lparr>lang = ''nl'', is_default = True\<rparr>, \<lparr>lang = ''fr'', is_default = True\<rparr>,
          \<lparr>lang = ''de'', is_default = True\<rparr>],
         [\<lparr>admin_level = 0,
           prop_languages = [\<lparr>lang = ''nl'', is_default = True\<rparr>, \<lparr>lang = ''fr'', is_default = True\<rparr>]\<rparr>,
          \<lparr>admin_level = 1, prop_languages = [\<lparr>lang = ''de'', is_default = True\<rparr>]\<rparr>])
      else if latitude = 4 then
        (Some ''cn'', [\<lparr>lang = ''zh'', is_default = True\<rparr>],
         [\<lparr>admin_level = 0, prop_languages = [\<lparr>lang = ''zh'', is_default = True\<rparr>]\<rparr>])
      else if latitude = 5 then
        (Some ''ma'',
         [\<lparr>lang = ''ar'', is_default = True\<rparr>, \<lparr>lang = ''fr'', is_default = False\<rparr>],
         [\<lparr>admin_level = 0,
           prop_languages = [\<lparr>lang = ''ar'', is_default = True\<rparr>, \<lparr>lang = ''fr'', is_default = False\<rparr>]\<rparr>])
      else if latitude = 6 then
        (Some ''sn'',
         [\<lparr>lang = ''fr'', is_default = True\<rparr>, \<lparr>lang = ''en'', is_default = False\<rparr>],
         [\<lparr>admin_level = 0, prop_languages = [\<lparr>lang = ''fr'', is_default = True\<rparr>]\<rparr>,
          \<lparr>admin_level = 4,
           prop_languages = [\<lparr>lang = ''fr'', is_default = True\<rparr>, \<lparr>lang = ''en'', is_default = False\<rparr>]\<rparr>])
      else (None, [], []))"

definition demo :: env where
  "demo =
     \<lparr>languages = {''en'', ''fr'', ''de'', ''nl'', ''ar'', ''zh''},
      WELL_REPRESENTED_LANGUAGES = {''en'', ''fr'', ''de''},
      WELL_REPRESENTED_LANGUAGE_COUNTRIES =
        (\<lambda>l. if l = ''fr'' then {''fr''} else if l = ''de'' then {''de''}
             else if l = ''en'' then {''gb'', ''us''} else {}),
      official_languages =
        (\<lambda>c. if c = ''fr'' then [(''fr'', True)]
             else if c = ''ma'' then [(''fr'', False), (''ar'', True)]
             else if c = ''sn'' then [(''fr'', True)]
             else if c = ''be'' then [(''nl'', True), (''fr'', True), (''de'', True)]
             else []),
      AMBIGUOUS_LANGUAGE = ''xxx'',
      UNKNOWN_LANGUAGE = ''unk'',
      disambiguate_language =
        (\<lambda>text langs. if text = ''Rue X'' then ''fr''
                      else if text = ''Centre'' then ''xxx''
                      else if text = ''Hauptstrasse'' then ''de''
                      else ''unk''),
      country_and_languages = demo_lookup,
      format_address =
        (\<lambda>country value tag_components.
           let parts = map snd (filter (\<lambda>kv. fst kv \<in> {''addr:housenumber'', ''addr:street''}) value)
           in if parts = [] then None else Some (concat (map (\<lambda>s. s @ ''|'') parts))),
      tsv_string = (\<lambda>s. s),
      safe_encode = (\<lambda>s. s)\<rparr>"

text \<open>A tag whose key starts with the prefix and a colon (the test of line 275).\<close>

definition is_qualified :: "string \<Rightarrow> string \<times> string \<Rightarrow> bool" where
  "is_qualified tag_prefix kv = prefix (tag_prefix @ '':'') (fst kv)"

text \<open>
  What the second loop keeps true when there is a single candidate and no alternate: no
  call has been made, and the bare text, once met, stands under the candidate's language.
\<close>

definition single_inv :: "string \<Rightarrow> string \<Rightarrow> bool \<Rightarrow> attribution \<Rightarrow> bool" where
  "single_inv l v seen st = (calls st = [] \<and> (seen \<longrightarrow> v \<in> set (dd_get l (name_language st))))"

text \<open>
  The three ways in which the fallback of lines 293 to 305 ends with
  \<open>return None, None\<close>, for the answer \<open>l\<close> of the disambiguation.
\<close>

definition fallback_aborts :: "env \<Rightarrow> candidate list \<Rightarrow> language_prop list \<Rightarrow> string \<Rightarrow> bool" where
  "fallback_aborts E cands props l =
     (l = AMBIGUOUS_LANGUAGE E \<or>
      (l = UNKNOWN_LANGUAGE E \<and> card (set (map lang (filter is_default cands))) \<noteq> 1) \<or>
      (l \<noteq> UNKNOWN_LANGUAGE E \<and> l \<noteq> lang (hd cands) \<and> l \<in> country_langs_of props \<and>
       country_defaults_of props > 1 \<and> regional_defaults_of props > 0 \<and>
       l \<in> WELL_REPRESENTED_LANGUAGES E))"

text \<open>
  A key that is a known language code, or becomes one when everything from its first
  underscore on (the script qualifier) is removed.
\<close>

definition known_up_to_script :: "env \<Rightarrow> string \<Rightarrow> bool" where
  "known_up_to_script E k = (k \<in> languages E \<or> before_first (CHR ''_'') k \<in> languages E)"

text \<open>
  The disambiguation answers with one of its two markers or with one of the languages it
  was given; the geo index only yields candidates that are known codes.
\<close>

definition answers_among_given :: "env \<Rightarrow> bool" where
  "answers_among_given E =
     (\<forall>text langs. disambiguate_language E text langs = AMBIGUOUS_LANGUAGE E \<or>
                   disambiguate_language E text langs = UNKNOWN_LANGUAGE E \<or>
                   disambiguate_language E text langs \<in> set (map fst langs))"

definition candidates_known :: "env \<Rightarrow> bool" where
  "candidates_known E =
     (\<forall>latitude longitude. \<forall>c \<in> set (fst (snd (country_and_languages E latitude longitude))).
         lang c \<in> languages E)"

definition keys_known :: "env \<Rightarrow> (string \<times> string list) list \<Rightarrow> bool" where
  "keys_known E d = list_all (\<lambda>kv. known_up_to_script E (fst kv)) d"

text \<open>The small world with a disambiguation that answers with the first language given.\<close>

definition demo_first :: env where
  "demo_first =
     demo\<lparr>disambiguate_language :=
            (\<lambda>text langs. case langs of [] \<Rightarrow> ''unk'' | l # _ \<Rightarrow> fst l)\<rparr>"

text \<open>
  A stream of one element: the way 5, packed as a node, with two alternate names and a
  name in a script variant, at the first point of the small world.
\<close>

definition example_infile :: "element list" where
  "example_infile =
     [\<lparr>elem_tag = ''node'',
       elem_attrib = [(''id'', ''1000000000000005''), (''lat'', ''1''), (''lon'', ''0'')],
       elem_children =
         [(''tag'', [(''k'', ''name:en''), (''v'', ''Main Street'')]),
          (''tag'', [(''k'', ''name:fr''), (''v'', ''Rue Principale'')]),
          (''tag'', [(''k'', ''name:ar_Latn''), (''v'', ''Shari'')])]\<rparr>]"

text \<open>
  A stream of one element: the node 12 at the third point of the small world (three
  candidates), with a street whose name the disambiguation finds ambiguous.
\<close>

definition example_address_infile :: "element list" where
  "example_address_infile =
     [\<lparr>elem_tag = ''node'',
       elem_attrib = [(''id'', ''12''), (''lat'', ''3''), (''lon'', ''0'')],
       elem_children =
         [(''tag'', [(''k'', ''addr:street''), (''v'', ''Centre'')]),
          (''tag'', [(''k'', ''addr:housenumber''), (''v'', ''8'')])]\<rparr>]"






text \<open>
  Two more addresses: at the point with three candidates, the street in two languages
  listed before the street itself; in the country with a single candidate, a street whose
  override has an override of its own.
\<close>

definition example_address_three :: tags where
  "example_address_three =
     [(''lat'', ''3''), (''lon'', ''0''), (''addr:street:nl'', ''Nieuwstraat''),
      (''addr:street:fr'', ''Rue Neuve''), (''addr:street'', ''Nieuwstraat - Rue Neuve'')]"

definition example_address_four :: tags where
  "example_address_four =
     [(''lat'', ''2''), (''lon'', ''0''), (''addr:street:fr'', ''Rue Neuve''),
      (''addr:street:fr:fr'', ''Rue Nouvelle''), (''addr:street'', ''Nieuwstraat'')]"

section \<open>Dictionaries\<close>

lemma dd_get_append:
  "dd_get k (dd_append k' v d) = (if k = k' then dd_get k d @ [v] else dd_get k d)"
  by (induction d) (auto simp: dd_get_def)

lemma dd_get_Nil: "dd_get k [] = []"
  by (simp add: dd_get_def)

lemma dd_append_keys:
  "map fst (dd_append k v d) = (if k \<in> set (map fst d) then map fst d else map fst d @ [k])"
  by (induction d) (simp, force)

lemma dd_append_distinct: "distinct (map fst d) \<Longrightarrow> distinct (map fst (dd_append k v d))"
  by (induction d) (auto simp: dd_append_keys)

lemma collect_alternates_get:
  "dd_get v (snd (collect_alternates E p tgs acc)) =
     dd_get v (snd acc) @ languages_sharing E p tgs v"
  by (induction tgs arbitrary: acc)
     (auto simp: languages_sharing_def dd_get_append Let_def)

lemma collect_alternates_length:
  "length (fst (collect_alternates E p tgs acc)) =
     length (fst acc) + length (filter (\<lambda>kv. is_alternate E p (fst kv)) tgs)"
  by (induction tgs arbitrary: acc) (auto simp: Let_def)

lemma collect_alternates_distinct:
  "distinct (map fst (snd acc)) \<Longrightarrow> distinct (map fst (snd (collect_alternates E p tgs acc)))"
  by (induction tgs arbitrary: acc) (auto simp: Let_def dd_append_distinct)

lemma long_entries_keys:
  "distinct (map fst d) \<Longrightarrow>
   set (map fst (filter (\<lambda>kv. length (snd kv) > 1) d)) = {k. length (dd_get k d) > 1}"
  by (induction d) (auto simp: dd_get_def image_iff split: option.splits dest: map_of_SomeD)

lemma located_1: "latlon_to_floats ''1'' ''0'' = Inr (1, 0)"
  by code_simp

section \<open>Id-offset decoding\<close>

lemma decode_id_node: "decode_id ''node'' n = decode n"
  by (simp add: decode_id_def decode_def WAY_OFFSET_def RELATION_OFFSET_def)

text \<open>
  C9. The input is converted so that every element is a node carrying a packed id. For
  such an element with id \<open>n\<close>, \<open>parse_osm\<close> decodes \<open>n\<close> as the specification says: a
  node with id \<open>n\<close> below \<open>10^15\<close>, a way with id \<open>n - 10^15\<close> from \<open>10^15\<close> to below
  \<open>2 * 10^15\<close>, a relation with id \<open>n - 2 * 10^15\<close> from there on. The element is
  yielded exactly when the decoded kind is allowed, and the yielded key is the decoded
  local id, preceded by the decoded kind unless a single kind is allowed.
\<close>

theorem parse_osm_decodes_packed_id:
  assumes "elem_tag elem = ''node''"
    and "map_of (elem_attrib elem) ''id'' = Some s"
    and "long s = Inr n"
    and "tag_pairs (elem_children elem) = Inr pairs"
  shows "decode_id (elem_tag elem) n = decode n \<and>
         parse_elem allowed_types elem =
           (if fst (decode n) \<in> allowed_types
            then Inr (Some (if card allowed_types = 1 then IdKey (snd (decode n))
                            else TypedKey (fst (decode n) @ '':'' @ format_int (snd (decode n))),
                            od_update (od_pop ''id'' (elem_attrib elem)) (od_of_pairs pairs)))
            else Inr None)"
proof -
  have d: "decode_id (elem_tag elem) n = decode n"
    using assms(1) by (simp add: decode_id_node)
  show ?thesis
    using assms(2-4) d by (simp add: parse_elem_def Let_def split: prod.splits)
qed

lemma long_example: "long ''1000000000000005'' = Inr 1000000000000005"
  by (simp add: long_def nat_of_digits_def is_digit_def)

lemma format_int_5: "format_int 5 = ''5''"
  by code_simp

theorem parse_osm_decodes_packed_id_witness:
  "parse_elem WAYS_RELATIONS
     \<lparr>elem_tag = ''node'',
      elem_attrib = [(''id'', ''1000000000000005''), (''lat'', ''1''), (''lon'', ''2'')],
      elem_children = [(''tag'', [(''k'', ''name:en''), (''v'', ''Main Street'')])]\<rparr>
   = Inr (Some (TypedKey ''way:5'',
                [(''lat'', ''1''), (''lon'', ''2''), (''name:en'', ''Main Street'')]))"
  using parse_osm_decodes_packed_id
    [of "\<lparr>elem_tag = ''node'',
          elem_attrib = [(''id'', ''1000000000000005''), (''lat'', ''1''), (''lon'', ''2'')],
          elem_children = [(''tag'', [(''k'', ''name:en''), (''v'', ''Main Street'')])]\<rparr>"
        "''1000000000000005''" 1000000000000005 "[(''name:en'', ''Main Street'')]"
        WAYS_RELATIONS]
  by (simp add: long_example format_int_5 decode_def WAYS_RELATIONS_def od_item_def
      od_update_def od_of_pairs_def od_pop_def)

section \<open>Degrees, minutes and seconds\<close>

text \<open>
  C6. On the pair of the specification's example, \<open>40 42 46 N\<close> and \<open>74 0 21 W\<close>, both
  texts match the pattern of degrees, minutes and seconds, and \<open>latlon_to_floats\<close>
  returns \<open>d + m/60 + s/3600\<close> for each without the sign of the cardinal letter: the
  longitude comes out positive, about 148 degrees away from \<open>-74.0060\<close>.
\<close>

theorem latlon_to_floats_dms_west_positive:
  "latlon_to_floats ''40 42 46 N'' ''74 0 21 W''
     = Inr (40 + 42 / 60 + 46 / 3600, 74 + 0 / 60 + 21 / 3600) \<and>
   \<bar>(40 + 42 / 60 + 46 / 3600) - 40.7128\<bar> < (1 / 1000 :: real) \<and>
   \<not> \<bar>(74 + 0 / 60 + 21 / 3600) - (- 74.0060)\<bar> < (1 / 1000 :: real)"
proof -
  have "latlon_to_floats ''40 42 46 N'' ''74 0 21 W''
          = Inr (40 + 42 / 60 + 46 / 3600, 74 + 0 / 60 + 21 / 3600)"
    by code_simp
  then show ?thesis by simp
qed

text \<open>
  The sibling branch, for plain decimals followed by a cardinal letter, does apply the
  sign; in the branch of the degrees, minutes and seconds the letter changes nothing.
\<close>

lemma latlon_to_floats_decimal_west_negative:
  "latlon_to_floats ''40.7 N'' ''074.5 W'' = Inr (40.7, - 74.5)"
  by code_simp

lemma latlon_to_floats_dms_letter_ignored:
  "latlon_to_floats ''40 42 46 S'' ''74 0 21 E'' = latlon_to_floats ''40 42 46 N'' ''74 0 21 W''"
  by code_simp

section \<open>Ambiguous alternates\<close>

lemma attribute_item_with_alternates:
  "has_alternate_names L \<noteq> 0 \<Longrightarrow>
   attribute_item E p L (k, w) st =
     Some (if prefix (p @ '':'') k then
             if w \<notin> ambiguous_alternatives L then
               if after_last (CHR '':'') k \<in> languages E \<or>
                  normalize_osm_name_tag k True \<in> languages E
               then st\<lparr>name_language := dd_append (after_last (CHR '':'') k) w (name_language st)\<rparr>
               else st
             else if w \<notin> ambiguous_already_seen st then
               st\<lparr>name_language :=
                    (let l = disambiguate_language E w
                               (map (\<lambda>l. (l, l \<in> default_langs L)) (dd_get w (equivalent_alternatives L)))
                     in if l \<noteq> AMBIGUOUS_LANGUAGE E \<and> l \<noteq> UNKNOWN_LANGUAGE E
                        then dd_append l w (name_language st) else name_language st),
                  ambiguous_already_seen := insert w (ambiguous_already_seen st),
                  calls := calls st @
                    [(w, map (\<lambda>l. (l, l \<in> default_langs L)) (dd_get w (equivalent_alternatives L)))]\<rparr>
             else st
           else st)"
  by (simp add: attribute_item_def Let_def normalize_osm_name_tag_def)

lemma attribute_item_amb_inv:
  assumes alt: "has_alternate_names L \<noteq> 0" and amb: "v \<in> ambiguous_alternatives L"
    and inv: "amb_inv E L v st"
  shows "\<exists>st'. attribute_item E p L kv st = Some st' \<and> amb_inv E L v st' \<and>
           (v \<in> ambiguous_already_seen st \<longrightarrow> v \<in> ambiguous_already_seen st') \<and>
           (prefix (p @ '':'') (fst kv) \<and> snd kv = v \<longrightarrow> v \<in> ambiguous_already_seen st')"
proof -
  obtain k w where kv: "kv = (k, w)" by (cases kv)
  note step = attribute_item_with_alternates[OF alt]
  show ?thesis
  proof (cases "prefix (p @ '':'') k")
    case False
    then show ?thesis using inv by (simp add: kv step)
  next
    case True
    show ?thesis
    proof (cases "w = v")
      case True
      with \<open>prefix (p @ '':'') k\<close> amb inv show ?thesis
        by (cases "v \<in> ambiguous_already_seen st")
           (auto simp add: kv step amb_inv_def Let_def dd_get_append)
    next
      case False
      with \<open>prefix (p @ '':'') k\<close> inv show ?thesis
        by (auto simp add: kv step amb_inv_def Let_def dd_get_append)
    qed
  qed
qed

lemma attribute_loop_amb_inv:
  assumes "has_alternate_names L \<noteq> 0" and "v \<in> ambiguous_alternatives L"
  shows "amb_inv E L v st \<Longrightarrow>
         \<exists>st'. attribute_loop E p L tgs st = Some st' \<and> amb_inv E L v st' \<and>
           (v \<in> ambiguous_already_seen st \<longrightarrow> v \<in> ambiguous_already_seen st') \<and>
           ((\<exists>k. (k, v) \<in> set tgs \<and> prefix (p @ '':'') k) \<longrightarrow> v \<in> ambiguous_already_seen st')"
proof (induction tgs arbitrary: st)
  case Nil
  then show ?case by simp
next
  case (Cons kv tgs)
  from attribute_item_amb_inv[OF assms Cons.prems, of p kv]
  obtain st1 where s1: "attribute_item E p L kv st = Some st1" "amb_inv E L v st1"
    "v \<in> ambiguous_already_seen st \<longrightarrow> v \<in> ambiguous_already_seen st1"
    "prefix (p @ '':'') (fst kv) \<and> snd kv = v \<longrightarrow> v \<in> ambiguous_already_seen st1"
    by blast
  from Cons.IH[OF s1(2)]
  obtain st2 where s2: "attribute_loop E p L tgs st1 = Some st2" "amb_inv E L v st2"
    "v \<in> ambiguous_already_seen st1 \<longrightarrow> v \<in> ambiguous_already_seen st2"
    "(\<exists>k. (k, v) \<in> set tgs \<and> prefix (p @ '':'') k) \<longrightarrow> v \<in> ambiguous_already_seen st2"
    by blast
  show ?case
    using s1 s2 by (cases kv) auto
qed

lemma two_members_length: "a \<in> set xs \<Longrightarrow> b \<in> set xs \<Longrightarrow> a \<noteq> b \<Longrightarrow> 1 < length xs"
  by (cases xs; cases "tl xs") auto

lemma make_locals_equivalent:
  "dd_get v (equivalent_alternatives (make_locals E p tgs cands props)) = languages_sharing E p tgs v"
  by (simp add: make_locals_def Let_def collect_alternates_get dd_get_Nil)

lemma make_locals_ambiguous:
  "ambiguous_alternatives (make_locals E p tgs cands props) =
     {v. 1 < length (languages_sharing E p tgs v)}"
proof -
  have "distinct (map fst (snd (collect_alternates E p tgs ([], []))))"
    by (rule collect_alternates_distinct) simp
  from long_entries_keys[OF this] show ?thesis
    by (simp add: make_locals_def Let_def collect_alternates_get dd_get_Nil)
qed

lemma make_locals_has_alternates:
  "has_alternate_names (make_locals E p tgs cands props) =
     length (filter (\<lambda>kv. is_alternate E p (fst kv)) tgs)"
  by (simp add: make_locals_def Let_def collect_alternates_length)

text \<open>
  C1. When a text \<open>v\<close> stands under two different alternate tags of the prefix, the engine
  does not abort, and it calls the disambiguation for \<open>v\<close> exactly once, with \<open>v\<close> and
  the pairs (language, is it a default of the point) of the languages sharing \<open>v\<close>. The
  text is attributed at most once, and only to the language that call returned; when the
  call returned the ambiguous or the unknown marker, \<open>v\<close> is attributed to no language.
\<close>

theorem ambiguous_alternates_disambiguated_once:
  assumes "locate E tgs = Some (country, cands, props)"
    and "(k1, v) \<in> set tgs" and "(k2, v) \<in> set tgs" and "k1 \<noteq> k2"
    and "is_alternate E p k1" and "is_alternate E p k2"
  shows "\<exists>st. get_language_names_state E tgs p = Some (country, st) \<and>
           get_language_names E tgs p = Some (country, name_language st) \<and>
           filter (\<lambda>c. fst c = v) (calls st) = [(v, candidate_pairs E p tgs cands v)] \<and>
           (\<forall>l. v \<in> set (dd_get l (name_language st)) \<longrightarrow>
                l = disambiguate_language E v (candidate_pairs E p tgs cands v) \<and>
                l \<noteq> AMBIGUOUS_LANGUAGE E \<and> l \<noteq> UNKNOWN_LANGUAGE E) \<and>
           (\<forall>l. count_list (dd_get l (name_language st)) v \<le> 1)"
proof -
  let ?L = "make_locals E p tgs cands props"
  let ?st0 = "\<lparr>name_language = [], ambiguous_already_seen = {}, calls = []\<rparr>"
  let ?alts = "filter (\<lambda>kv. is_alternate E p (fst kv) \<and> snd kv = v) tgs"
  have m1: "(k1, v) \<in> set ?alts" and m2: "(k2, v) \<in> set ?alts"
    using assms by auto
  have "(k1, v) \<noteq> (k2, v)" using assms(4) by simp
  from two_members_length[OF m1 m2 this]
  have len: "1 < length (languages_sharing E p tgs v)"
    by (simp add: languages_sharing_def)
  have amb: "v \<in> ambiguous_alternatives ?L"
    using len by (simp add: make_locals_ambiguous)
  have "(k1, v) \<in> set (filter (\<lambda>kv. is_alternate E p (fst kv)) tgs)"
    using assms by auto
  then have "filter (\<lambda>kv. is_alternate E p (fst kv)) tgs \<noteq> []"
    by (metis empty_iff empty_set)
  then have alt: "has_alternate_names ?L \<noteq> 0"
    by (simp add: make_locals_has_alternates)
  have inv0: "amb_inv E ?L v ?st0"
    by (simp add: amb_inv_def dd_get_Nil)
  have pre: "\<exists>k. (k, v) \<in> set tgs \<and> prefix (p @ '':'') k"
    using assms(2,5) by (auto simp: is_alternate_def)
  from attribute_loop_amb_inv[OF alt amb inv0, of p tgs] pre
  obtain st where st: "attribute_loop E p ?L tgs ?st0 = Some st" "amb_inv E ?L v st"
    "v \<in> ambiguous_already_seen st"
    by blast
  have dl: "default_langs ?L = set (map lang (filter is_default cands))"
    by (simp add: make_locals_def Let_def)
  have "get_language_names_state E tgs p = Some (country, st)"
    using assms(1) st(1) by (simp add: get_language_names_state_def)
  moreover from this have "get_language_names E tgs p = Some (country, name_language st)"
    by (simp add: get_language_names_def)
  moreover from st(2,3) have
    "filter (\<lambda>c. fst c = v) (calls st) = [(v, candidate_pairs E p tgs cands v)]"
    "\<forall>l. v \<in> set (dd_get l (name_language st)) \<longrightarrow>
                l = disambiguate_language E v (candidate_pairs E p tgs cands v) \<and>
                l \<noteq> AMBIGUOUS_LANGUAGE E \<and> l \<noteq> UNKNOWN_LANGUAGE E"
    "\<forall>l. count_list (dd_get l (name_language st)) v \<le> 1"
    by (auto simp: amb_inv_def Let_def make_locals_equivalent dl candidate_pairs_def)
  ultimately show ?thesis by blast
qed

theorem ambiguous_alternates_disambiguated_once_witness:
  "locate demo [(''lat'', ''1''), (''lon'', ''0''), (''name:en'', ''Rue X''), (''name:fr'', ''Rue X'')]
     = Some (''lb'', fst (snd (demo_lookup 1 0)), snd (snd (demo_lookup 1 0))) \<and>
   is_alternate demo ''name'' ''name:en'' \<and> is_alternate demo ''name'' ''name:fr'' \<and>
   candidate_pairs demo ''name''
     [(''lat'', ''1''), (''lon'', ''0''), (''name:en'', ''Rue X''), (''name:fr'', ''Rue X'')]
     (fst (snd (demo_lookup 1 0))) ''Rue X'' = [(''en'', False), (''fr'', False)] \<and>
   (\<exists>st. get_language_names_state demo
           [(''lat'', ''1''), (''lon'', ''0''), (''name:en'', ''Rue X''), (''name:fr'', ''Rue X'')]
           ''name'' = Some (''lb'', st) \<and>
         get_language_names demo
           [(''lat'', ''1''), (''lon'', ''0''), (''name:en'', ''Rue X''), (''name:fr'', ''Rue X'')]
           ''name'' = Some (''lb'', name_language st) \<and>
         filter (\<lambda>c. fst c = ''Rue X'') (calls st) =
           [(''Rue X'', candidate_pairs demo ''name''
              [(''lat'', ''1''), (''lon'', ''0''), (''name:en'', ''Rue X''), (''name:fr'', ''Rue X'')]
              (fst (snd (demo_lookup 1 0))) ''Rue X'')] \<and>
         (\<forall>l. ''Rue X'' \<in> set (dd_get l (name_language st)) \<longrightarrow>
              l = disambiguate_language demo ''Rue X''
                    (candidate_pairs demo ''name''
                       [(''lat'', ''1''), (''lon'', ''0''), (''name:en'', ''Rue X''),
                        (''name:fr'', ''Rue X'')]
                       (fst (snd (demo_lookup 1 0))) ''Rue X'') \<and>
              l \<noteq> AMBIGUOUS_LANGUAGE demo \<and> l \<noteq> UNKNOWN_LANGUAGE demo) \<and>
         (\<forall>l. count_list (dd_get l (name_language st)) ''Rue X'' \<le> 1))"
proof -
  let ?T = "[(''lat'', ''1''), (''lon'', ''0''), (''name:en'', ''Rue X''), (''name:fr'', ''Rue X'')]"
  have h1: "locate demo ?T = Some (''lb'', fst (snd (demo_lookup 1 0)), snd (snd (demo_lookup 1 0)))"
    by (simp add: locate_def located_1 demo_def demo_lookup_def)
  have h2: "is_alternate demo ''name'' ''name:en''"
    by (simp add: is_alternate_def normalize_osm_name_tag_def after_last_def before_first_def demo_def)
  have h3: "is_alternate demo ''name'' ''name:fr''"
    by (simp add: is_alternate_def normalize_osm_name_tag_def after_last_def before_first_def demo_def)
  have cp: "candidate_pairs demo ''name'' ?T (fst (snd (demo_lookup 1 0))) ''Rue X''
              = [(''en'', False), (''fr'', False)]"
    by (simp add: candidate_pairs_def languages_sharing_def is_alternate_def
        normalize_osm_name_tag_def after_last_def before_first_def demo_def demo_lookup_def)
  have m1: "(''name:en'', ''Rue X'') \<in> set ?T" and m2: "(''name:fr'', ''Rue X'') \<in> set ?T"
    by simp_all
  have ne: "''name:en'' \<noteq> ''name:fr''" by simp
  note r = ambiguous_alternates_disambiguated_once[OF h1 m1 m2 ne h2 h3]
  show ?thesis
    by (rule conjI[OF h1 conjI[OF h2 conjI[OF h3 conjI[OF cp r]]]])
qed

section \<open>The bare tag\<close>

lemma collect_alternates_qualified:
  "collect_alternates E p (filter (is_qualified p) tgs) acc = collect_alternates E p tgs acc"
  by (induction tgs arbitrary: acc) (auto simp: is_qualified_def is_alternate_def Let_def)

lemma make_locals_qualified:
  "make_locals E p (filter (is_qualified p) tgs) cands props = make_locals E p tgs cands props"
  by (simp add: make_locals_def collect_alternates_qualified)

lemma attribute_loop_qualified:
  "has_alternate_names L \<noteq> 0 \<Longrightarrow>
   attribute_loop E p L (filter (is_qualified p) tgs) st = attribute_loop E p L tgs st"
proof (induction tgs arbitrary: st)
  case Nil
  then show ?case by simp
next
  case (Cons kv tgs)
  obtain k w where kv: "kv = (k, w)" by (cases kv)
  show ?case
  proof (cases "prefix (p @ '':'') k")
    case True
    then show ?thesis using Cons by (simp add: kv is_qualified_def split: option.splits)
  next
    case False
    then show ?thesis
      using Cons by (simp add: kv is_qualified_def attribute_item_with_alternates)
  qed
qed

lemma get_language_names_state_qualified:
  assumes "locate E tgs = Some (country, cands, props)"
    and "\<exists>kv \<in> set tgs. is_alternate E p (fst kv)"
    and "locate E tgs' = locate E tgs"
    and "filter (is_qualified p) tgs' = filter (is_qualified p) tgs"
  shows "get_language_names_state E tgs' p = get_language_names_state E tgs p"
proof -
  let ?L = "make_locals E p tgs cands props"
  have L': "make_locals E p tgs' cands props = ?L"
    using make_locals_qualified[of E p tgs' cands props] make_locals_qualified[of E p tgs cands props]
      assms(4) by simp
  from assms(2) have "filter (\<lambda>kv. is_alternate E p (fst kv)) tgs \<noteq> []"
    by (simp add: filter_empty_conv)
  then have alt: "has_alternate_names ?L \<noteq> 0"
    by (simp add: make_locals_has_alternates)
  have "attribute_loop E p ?L tgs' st = attribute_loop E p ?L tgs st" for st
    using attribute_loop_qualified[OF alt, of E p tgs' st]
      attribute_loop_qualified[OF alt, of E p tgs st] assms(4) by simp
  then show ?thesis
    using assms(1,3) by (simp add: get_language_names_state_def L')
qed

lemma attribute_item_single:
  assumes "has_alternate_names L = 0" and "ambiguous_alternatives L = {}"
    and "candidate_languages L = [c]"
    and "single_inv (lang c) v seen st"
  shows "\<exists>st'. attribute_item E p L (k, w) st = Some st' \<and>
           single_inv (lang c) v (seen \<or> (\<not> prefix (p @ '':'') k \<and> is_bare p k \<and> w = v)) st'"
  using assms
  by (auto simp: attribute_item_def single_inv_def Let_def dd_get_append)

lemma attribute_loop_single:
  assumes "has_alternate_names L = 0" and "ambiguous_alternatives L = {}"
    and "candidate_languages L = [c]"
  shows "single_inv (lang c) v seen st \<Longrightarrow>
         \<exists>st'. attribute_loop E p L tgs st = Some st' \<and>
           single_inv (lang c) v
             (seen \<or> (\<exists>k. (k, v) \<in> set tgs \<and> \<not> prefix (p @ '':'') k \<and> is_bare p k)) st'"
proof (induction tgs arbitrary: st seen)
  case Nil
  then show ?case by simp
next
  case (Cons kv tgs)
  obtain k w where kv: "kv = (k, w)" by (cases kv)
  from attribute_item_single[OF assms Cons.prems, of E p k w]
  obtain st1 where s1: "attribute_item E p L (k, w) st = Some st1"
    "single_inv (lang c) v (seen \<or> (\<not> prefix (p @ '':'') k \<and> is_bare p k \<and> w = v)) st1"
    by blast
  from Cons.IH[OF s1(2)]
  obtain st2 where s2: "attribute_loop E p L tgs st1 = Some st2"
    "single_inv (lang c) v
       ((seen \<or> (\<not> prefix (p @ '':'') k \<and> is_bare p k \<and> w = v)) \<or>
        (\<exists>k. (k, v) \<in> set tgs \<and> \<not> prefix (p @ '':'') k \<and> is_bare p k)) st2"
    by blast
  have "single_inv (lang c) v
          (seen \<or> (\<exists>k'. (k', v) \<in> set (kv # tgs) \<and> \<not> prefix (p @ '':'') k' \<and> is_bare p k')) st2"
    using s2(2) by (auto simp: single_inv_def kv)
  then show ?case using s1(1) s2(1) by (simp add: kv)
qed

lemma is_bare_name: "is_bare ''name'' ''name''" "\<not> prefix (''name'' @ '':'') ''name''"
  by (simp_all add: is_bare_def normalize_osm_name_tag_def after_last_def before_first_def)

lemma is_bare_street: "is_bare ''addr:street'' ''addr:street''"
  "\<not> prefix (''addr:street'' @ '':'') ''addr:street''"
  by (simp_all add: is_bare_def normalize_osm_name_tag_def after_last_def before_first_def)

lemma no_alternates_locals:
  assumes "\<forall>kv \<in> set tgs. \<not> is_alternate E p (fst kv)"
  shows "has_alternate_names (make_locals E p tgs cands props) = 0"
    and "ambiguous_alternatives (make_locals E p tgs cands props) = {}"
proof -
  have f: "filter (\<lambda>kv. is_alternate E p (fst kv)) tgs = []"
    using assms by (simp add: filter_empty_conv)
  show "has_alternate_names (make_locals E p tgs cands props) = 0"
    by (simp add: make_locals_has_alternates f)
  have "filter (\<lambda>kv. is_alternate E p (fst kv) \<and> snd kv = v) tgs = []" for v
    using assms by (simp add: filter_empty_conv)
  then show "ambiguous_alternatives (make_locals E p tgs cands props) = {}"
    by (simp add: make_locals_ambiguous languages_sharing_def)
qed

text \<open>
  C2. When the entity has an alternate tag of the prefix, the result of the engine depends
  only on the tags qualified by the prefix: the bare tag is not consulted. When it has
  none and a single candidate language applies to the point, the value of the bare tag
  (\<open>name\<close>, or \<open>addr:street\<close>) is attributed to that candidate, and the disambiguation
  is not called.
\<close>

theorem bare_tag_only_without_alternates:
  assumes "locate E tgs = Some (country, cands, props)"
  shows "((\<exists>kv \<in> set tgs. is_alternate E p (fst kv)) \<longrightarrow>
            (\<forall>tgs'. locate E tgs' = locate E tgs \<and>
                    filter (is_qualified p) tgs' = filter (is_qualified p) tgs \<longrightarrow>
                    get_language_names_state E tgs' p = get_language_names_state E tgs p)) \<and>
         ((\<forall>kv \<in> set tgs. \<not> is_alternate E p (fst kv)) \<and> cands = [c] \<and>
          (p = ''name'' \<or> p = ''addr:street'') \<and> (p, v) \<in> set tgs \<longrightarrow>
            (\<exists>st. get_language_names_state E tgs p = Some (country, st) \<and>
                  get_language_names E tgs p = Some (country, name_language st) \<and>
                  calls st = [] \<and> v \<in> set (dd_get (lang c) (name_language st))))"
proof (intro conjI impI allI)
  fix tgs'
  assume "\<exists>kv \<in> set tgs. is_alternate E p (fst kv)"
    and "locate E tgs' = locate E tgs \<and>
         filter (is_qualified p) tgs' = filter (is_qualified p) tgs"
  then show "get_language_names_state E tgs' p = get_language_names_state E tgs p"
    using get_language_names_state_qualified[OF assms, of p tgs'] by blast
next
  assume a: "(\<forall>kv \<in> set tgs. \<not> is_alternate E p (fst kv)) \<and> cands = [c] \<and>
             (p = ''name'' \<or> p = ''addr:street'') \<and> (p, v) \<in> set tgs"
  let ?L = "make_locals E p tgs cands props"
  let ?st0 = "\<lparr>name_language = [], ambiguous_already_seen = {}, calls = []\<rparr>"
  from a have na: "\<forall>kv \<in> set tgs. \<not> is_alternate E p (fst kv)" by blast
  have cl: "candidate_languages ?L = [c]"
    using a by (simp add: make_locals_def Let_def)
  have bare: "\<not> prefix (p @ '':'') p \<and> is_bare p p"
    using a is_bare_name is_bare_street by auto
  have inv0: "single_inv (lang c) v False ?st0"
    by (simp add: single_inv_def)
  from attribute_loop_single[OF no_alternates_locals[OF na] cl inv0, of E p tgs]
  obtain st where st: "attribute_loop E p ?L tgs ?st0 = Some st"
    "single_inv (lang c) v (False \<or> (\<exists>k. (k, v) \<in> set tgs \<and> \<not> prefix (p @ '':'') k \<and> is_bare p k)) st"
    by blast
  have "\<exists>k. (k, v) \<in> set tgs \<and> \<not> prefix (p @ '':'') k \<and> is_bare p k"
    using a bare by blast
  with st(2) have r: "calls st = []" "v \<in> set (dd_get (lang c) (name_language st))"
    by (simp_all add: single_inv_def)
  have "get_language_names_state E tgs p = Some (country, st)"
    using assms st(1) by (simp add: get_language_names_state_def)
  moreover from this have "get_language_names E tgs p = Some (country, name_language st)"
    by (simp add: get_language_names_def)
  ultimately show "\<exists>st. get_language_names_state E tgs p = Some (country, st) \<and>
                  get_language_names E tgs p = Some (country, name_language st) \<and>
                  calls st = [] \<and> v \<in> set (dd_get (lang c) (name_language st))"
    using r by blast
qed

lemma located_2: "latlon_to_floats ''2'' ''0'' = Inr (2, 0)"
  by code_simp

theorem bare_tag_only_without_alternates_witness:
  "get_language_names_state demo
     [(''lat'', ''1''), (''lon'', ''0''), (''name:en'', ''Rue X''), (''name:fr'', ''Rue X'')] ''name''
   = get_language_names_state demo
       [(''lat'', ''1''), (''lon'', ''0''), (''name'', ''Centre''), (''name:en'', ''Rue X''),
        (''name:fr'', ''Rue X'')] ''name'' \<and>
   (\<exists>st. get_language_names_state demo
           [(''lat'', ''2''), (''lon'', ''0''), (''name'', ''Mairie'')] ''name'' = Some (''fr'', st) \<and>
         get_language_names demo [(''lat'', ''2''), (''lon'', ''0''), (''name'', ''Mairie'')] ''name''
           = Some (''fr'', name_language st) \<and>
         calls st = [] \<and> ''Mairie'' \<in> set (dd_get ''fr'' (name_language st)))"
proof -
  let ?T = "[(''lat'', ''1''), (''lon'', ''0''), (''name'', ''Centre''), (''name:en'', ''Rue X''),
             (''name:fr'', ''Rue X'')]"
  let ?T' = "[(''lat'', ''1''), (''lon'', ''0''), (''name:en'', ''Rue X''), (''name:fr'', ''Rue X'')]"
  let ?U = "[(''lat'', ''2''), (''lon'', ''0''), (''name'', ''Mairie'')]"
  have h1: "locate demo ?T = Some (''lb'', fst (snd (demo_lookup 1 0)), snd (snd (demo_lookup 1 0)))"
    by (simp add: locate_def located_1 demo_def demo_lookup_def)
  have h1': "locate demo ?T' = locate demo ?T"
    by (simp add: locate_def)
  have a1: "\<exists>kv \<in> set ?T. is_alternate demo ''name'' (fst kv)"
    by (simp add: is_alternate_def normalize_osm_name_tag_def after_last_def before_first_def demo_def)
  have q: "filter (is_qualified ''name'') ?T' = filter (is_qualified ''name'') ?T"
    by (simp add: is_qualified_def)
  have first: "get_language_names_state demo ?T' ''name'' = get_language_names_state demo ?T ''name''"
    using bare_tag_only_without_alternates[OF h1, of "''name''"] a1 h1' q by blast
  have h2: "locate demo ?U = Some (''fr'', [\<lparr>lang = ''fr'', is_default = True\<rparr>],
              [\<lparr>admin_level = 0, prop_languages = [\<lparr>lang = ''fr'', is_default = True\<rparr>]\<rparr>])"
    by (simp add: locate_def located_2 demo_def demo_lookup_def)
  have a2: "\<forall>kv \<in> set ?U. \<not> is_alternate demo ''name'' (fst kv)"
    by (simp add: is_alternate_def)
  have m: "(''name'', ''Mairie'') \<in> set ?U" by simp
  from bare_tag_only_without_alternates[OF h2, of "''name''" "\<lparr>lang = ''fr'', is_default = True\<rparr>" "''Mairie''"]
    a2 m
  have second: "\<exists>st. get_language_names_state demo ?U ''name'' = Some (''fr'', st) \<and>
         get_language_names demo ?U ''name'' = Some (''fr'', name_language st) \<and>
         calls st = [] \<and> ''Mairie'' \<in> set (dd_get ''fr'' (name_language st))"
    by simp
  show ?thesis using first second by (rule conjI)
qed

section \<open>The fallback that gives up\<close>

lemma attribute_item_aborts:
  assumes "has_alternate_names (make_locals E p tgs cands props) = 0"
    and "\<not> prefix (p @ '':'') k" and "is_bare p k" and "length cands \<noteq> 1"
    and "fallback_aborts E cands props
           (disambiguate_language E v (map (\<lambda>c. (lang c, is_default c)) cands))"
  shows "attribute_item E p (make_locals E p tgs cands props) (k, v) st = None"
  using assms
  by (auto simp: attribute_item_def fallback_aborts_def make_locals_def Let_def)

lemma attribute_loop_aborts:
  assumes "\<And>st. attribute_item E p L kv st = None"
  shows "kv \<in> set tgs \<Longrightarrow> attribute_loop E p L tgs st = None"
proof (induction tgs arbitrary: st)
  case Nil
  then show ?case by simp
next
  case (Cons x tgs)
  show ?case
  proof (cases "x = kv")
    case True
    then show ?thesis by (simp add: assms)
  next
    case False
    with Cons.prems have "kv \<in> set tgs" by simp
    from Cons.IH[OF this] show ?thesis
      by (simp split: option.splits)
  qed
qed

lemma get_language_names_aborts:
  assumes "locate E tgs = Some (country, cands, props)"
    and "\<forall>kv \<in> set tgs. \<not> is_alternate E p (fst kv)"
    and "length cands \<noteq> 1"
    and "(k, v) \<in> set tgs" and "\<not> prefix (p @ '':'') k" and "is_bare p k"
    and "fallback_aborts E cands props
           (disambiguate_language E v (map (\<lambda>c. (lang c, is_default c)) cands))"
  shows "get_language_names E tgs p = None"
proof -
  let ?L = "make_locals E p tgs cands props"
  have "attribute_item E p ?L (k, v) st = None" for st
    using attribute_item_aborts[OF no_alternates_locals(1)[OF assms(2)] assms(5,6,3,7)] .
  from attribute_loop_aborts[of E p ?L "(k, v)", OF this assms(4)]
  show ?thesis
    using assms(1) by (simp add: get_language_names_def get_language_names_state_def)
qed

text \<open>
  C4 as amended. In the fallback to the bare tag (no alternate, several candidates), when
  the disambiguation returns a concrete language that differs from the top-ranked
  candidate, is well represented, and is one of the languages of the country-level
  polygons, while the country-level polygons declare more than one default and a regional
  polygon declares a default, the engine returns \<open>None\<close> for the entity.
\<close>

theorem well_represented_guard:
  assumes "locate E tgs = Some (country, cands, props)"
    and "\<forall>kv \<in> set tgs. \<not> is_alternate E p (fst kv)"
    and "length cands \<noteq> 1"
    and "(k, v) \<in> set tgs" and "\<not> prefix (p @ '':'') k" and "is_bare p k"
    and "l = disambiguate_language E v (map (\<lambda>c. (lang c, is_default c)) cands)"
    and "l \<noteq> AMBIGUOUS_LANGUAGE E" and "l \<noteq> UNKNOWN_LANGUAGE E"
    and "l \<noteq> lang (hd cands)"
    and "l \<in> WELL_REPRESENTED_LANGUAGES E"
    and "country_defaults_of props > 1"
    and "regional_defaults_of props > 0"
    and "l \<in> country_langs_of props"
  shows "get_language_names E tgs p = None"
proof -
  have "fallback_aborts E cands props
          (disambiguate_language E v (map (\<lambda>c. (lang c, is_default c)) cands))"
    using assms(7-14) by (simp add: fallback_aborts_def)
  from get_language_names_aborts[OF assms(1-6) this] show ?thesis .
qed

lemma located_3: "latlon_to_floats ''3'' ''0'' = Inr (3, 0)"
  by code_simp

lemma locate_3:
  "map_of tgs ''lat'' = Some ''3'' \<Longrightarrow> map_of tgs ''lon'' = Some ''0'' \<Longrightarrow>
   locate demo tgs = Some (''be'', fst (snd (demo_lookup 3 0)), snd (snd (demo_lookup 3 0)))"
  by (simp add: locate_def located_3 demo_def demo_lookup_def)

theorem well_represented_guard_witness:
  "get_language_names demo [(''lat'', ''3''), (''lon'', ''0''), (''name'', ''Rue X'')] ''name'' = None"
proof -
  let ?T = "[(''lat'', ''3''), (''lon'', ''0''), (''name'', ''Rue X'')]"
  let ?C = "fst (snd (demo_lookup 3 0))"
  let ?P = "snd (snd (demo_lookup 3 0))"
  have h1: "locate demo ?T = Some (''be'', ?C, ?P)"
    by (rule locate_3) simp_all
  have h2: "\<forall>kv \<in> set ?T. \<not> is_alternate demo ''name'' (fst kv)"
    by (simp add: is_alternate_def)
  have h3: "length ?C \<noteq> 1" by (simp add: demo_lookup_def)
  have h4: "(''name'', ''Rue X'') \<in> set ?T" by simp
  have h7: "''fr'' = disambiguate_language demo ''Rue X'' (map (\<lambda>c. (lang c, is_default c)) ?C)"
    by (simp add: demo_def)
  have h8: "''fr'' \<noteq> AMBIGUOUS_LANGUAGE demo" and h9: "''fr'' \<noteq> UNKNOWN_LANGUAGE demo"
    and h11: "''fr'' \<in> WELL_REPRESENTED_LANGUAGES demo"
    by (simp_all add: demo_def)
  have h10: "''fr'' \<noteq> lang (hd ?C)" by (simp add: demo_lookup_def)
  have h12: "country_defaults_of ?P > 1"
    by (simp add: demo_lookup_def country_defaults_of_def count_defaults_def)
  have h13: "regional_defaults_of ?P > 0"
    by (simp add: demo_lookup_def regional_defaults_of_def count_defaults_def)
  have h14: "''fr'' \<in> country_langs_of ?P"
    by (simp add: demo_lookup_def country_langs_of_def)
  show ?thesis
    by (rule well_represented_guard[OF h1 h2 h3 h4 is_bare_name(2) is_bare_name(1)
          h7 h8 h9 h10 h11 h12 h13 h14])
qed

text \<open>
  C4 as stated fails: in the small world, at the point with the candidates \<open>nl\<close>, \<open>fr\<close>
  and \<open>de\<close>, the disambiguation returns \<open>de\<close> for the bare name. It differs from the
  top-ranked \<open>nl\<close>, is well represented, the country-level polygon declares two defaults
  and the regional polygon one; but \<open>de\<close> is not a language of the country-level
  polygon, and the engine attributes the name to \<open>de\<close>.
\<close>

theorem well_represented_guard_counterexample:
  "disambiguate_language demo ''Hauptstrasse'' [(''nl'', True), (''fr'', True), (''de'', True)]
     = ''de'' \<and>
   ''de'' \<noteq> AMBIGUOUS_LANGUAGE demo \<and> ''de'' \<noteq> UNKNOWN_LANGUAGE demo \<and>
   ''de'' \<noteq> lang (hd (fst (snd (demo_lookup 3 0)))) \<and>
   ''de'' \<in> WELL_REPRESENTED_LANGUAGES demo \<and>
   country_defaults_of (snd (snd (demo_lookup 3 0))) > 1 \<and>
   regional_defaults_of (snd (snd (demo_lookup 3 0))) > 0 \<and>
   get_language_names demo [(''lat'', ''3''), (''lon'', ''0''), (''name'', ''Hauptstrasse'')] ''name''
     = Some (''be'', [(''de'', [''Hauptstrasse''])])"
  by code_simp

section \<open>The keys of the result\<close>

lemma languages_sharing_known:
  "l \<in> set (languages_sharing E p tgs v) \<Longrightarrow> known_up_to_script E l"
  by (auto simp: languages_sharing_def is_alternate_def normalize_osm_name_tag_def
      known_up_to_script_def)

lemma keys_known_append:
  "keys_known E (dd_append k v d) = (known_up_to_script E k \<and> keys_known E d)"
  by (induction d) (auto simp: keys_known_def split: if_splits)

lemma attribute_item_keys:
  assumes ans: "answers_among_given E"
    and cands: "cands \<noteq> []" "\<forall>c \<in> set cands. lang c \<in> languages E"
    and inv: "keys_known E (name_language st)"
    and step: "attribute_item E p (make_locals E p tgs cands props) (k, w) st = Some st'"
  shows "keys_known E (name_language st')"
proof -
  let ?L = "make_locals E p tgs cands props"
  have hd: "known_up_to_script E (lang (hd cands))"
    using cands by (simp add: known_up_to_script_def)
  have cl: "candidate_languages ?L = cands"
    by (simp add: make_locals_def Let_def)
  let ?la = "map (\<lambda>l. (l, l \<in> default_langs ?L)) (dd_get w (equivalent_alternatives ?L))"
  let ?lc = "map (\<lambda>c. (lang c, is_default c)) cands"
  have a: "disambiguate_language E w ?la \<noteq> AMBIGUOUS_LANGUAGE E \<Longrightarrow>
           disambiguate_language E w ?la \<noteq> UNKNOWN_LANGUAGE E \<Longrightarrow>
           known_up_to_script E (disambiguate_language E w ?la)"
  proof -
    assume "disambiguate_language E w ?la \<noteq> AMBIGUOUS_LANGUAGE E"
      and "disambiguate_language E w ?la \<noteq> UNKNOWN_LANGUAGE E"
    with ans have "disambiguate_language E w ?la \<in> set (map fst ?la)"
      unfolding answers_among_given_def by blast
    then have "disambiguate_language E w ?la \<in> set (languages_sharing E p tgs w)"
      by (simp add: make_locals_equivalent comp_def)
    then show ?thesis by (rule languages_sharing_known)
  qed
  have b: "disambiguate_language E w ?lc \<noteq> AMBIGUOUS_LANGUAGE E \<Longrightarrow>
           disambiguate_language E w ?lc \<noteq> UNKNOWN_LANGUAGE E \<Longrightarrow>
           known_up_to_script E (disambiguate_language E w ?lc)"
  proof -
    assume "disambiguate_language E w ?lc \<noteq> AMBIGUOUS_LANGUAGE E"
      and "disambiguate_language E w ?lc \<noteq> UNKNOWN_LANGUAGE E"
    with ans have "disambiguate_language E w ?lc \<in> set (map fst ?lc)"
      unfolding answers_among_given_def by blast
    then have "disambiguate_language E w ?lc \<in> lang ` set cands"
      by (simp add: comp_def)
    then show ?thesis using cands(2) by (auto simp: known_up_to_script_def)
  qed
  have n: "after_last (CHR '':'') k \<in> languages E \<or> normalize_osm_name_tag k True \<in> languages E
           \<Longrightarrow> known_up_to_script E (after_last (CHR '':'') k)"
    by (auto simp: known_up_to_script_def normalize_osm_name_tag_def)
  show ?thesis
    using step inv hd a b n
    by (auto simp: attribute_item_def Let_def cl keys_known_append normalize_osm_name_tag_def
        split: if_splits)
qed

lemma attribute_loop_keys:
  assumes "answers_among_given E" and "cands \<noteq> []" and "\<forall>c \<in> set cands. lang c \<in> languages E"
  shows "keys_known E (name_language st) \<Longrightarrow>
         attribute_loop E p (make_locals E p tgs cands props) rest st = Some st' \<Longrightarrow>
         keys_known E (name_language st')"
proof (induction rest arbitrary: st)
  case Nil
  then show ?case by simp
next
  case (Cons kv rest)
  obtain k w where kv: "kv = (k, w)" by (cases kv)
  from Cons.prems(2) obtain st1 where
    s1: "attribute_item E p (make_locals E p tgs cands props) (k, w) st = Some st1"
    and s2: "attribute_loop E p (make_locals E p tgs cands props) rest st1 = Some st'"
    by (auto simp: kv split: option.splits)
  from attribute_item_keys[OF assms Cons.prems(1) s1]
  have "keys_known E (name_language st1)" .
  from Cons.IH[OF this s2] show ?case .
qed

lemma locate_candidates:
  assumes "locate E tgs = Some (country, cands, props)"
  shows "cands \<noteq> [] \<and> (\<exists>la lo. cands = fst (snd (country_and_languages E la lo)))"
  using assms
  by (auto simp: locate_def split: option.splits sum.splits prod.splits if_splits)
     (metis fst_conv snd_conv)

text \<open>
  C5 as amended. Provided the geo index yields only known codes as candidates and the
  disambiguation answers with a marker or with one of the languages it was given, every
  key of the returned map is a known language code, or becomes one when its script
  qualifier (everything from the first underscore on) is removed. A key with a script
  qualifier is stored as it stands in the tag.
\<close>

theorem name_language_keys_known_up_to_script:
  assumes "answers_among_given E" and "candidates_known E"
    and "get_language_names E tgs p = Some (country, nl)"
  shows "\<forall>k \<in> set (map fst nl). k \<in> languages E \<or> before_first (CHR ''_'') k \<in> languages E"
proof -
  from assms(3) obtain cands props st where
    loc: "locate E tgs = Some (country, cands, props)"
    and loop: "attribute_loop E p (make_locals E p tgs cands props) tgs
                 \<lparr>name_language = [], ambiguous_already_seen = {}, calls = []\<rparr> = Some st"
    and nl: "nl = name_language st"
    by (auto simp: get_language_names_def get_language_names_state_def split: option.splits)
  from locate_candidates[OF loc] assms(2)
  have c: "cands \<noteq> []" "\<forall>c \<in> set cands. lang c \<in> languages E"
    by (auto simp: candidates_known_def)
  have "keys_known E (name_language \<lparr>name_language = [], ambiguous_already_seen = {}, calls = []\<rparr>)"
    by (simp add: keys_known_def)
  from attribute_loop_keys[OF assms(1) c this loop]
  show ?thesis
    by (simp add: nl keys_known_def known_up_to_script_def list_all_iff)
qed

lemma located_4: "latlon_to_floats ''4'' ''0'' = Inr (4, 0)"
  by code_simp

theorem name_language_keys_known_up_to_script_witness:
  "answers_among_given demo_first \<and> candidates_known demo_first \<and>
   get_language_names demo_first
     [(''lat'', ''4''), (''lon'', ''0''), (''name:zh_pinyin'', ''Beijing''), (''name:zh'', ''Peking'')]
     ''name'' = Some (''cn'', [(''zh_pinyin'', [''Beijing'']), (''zh'', [''Peking''])]) \<and>
   (''zh_pinyin'' \<in> languages demo_first \<or>
    before_first (CHR ''_'') ''zh_pinyin'' \<in> languages demo_first)"
proof -
  have h1: "answers_among_given demo_first"
    by (auto simp: answers_among_given_def demo_first_def demo_def split: list.splits)
  have h2: "candidates_known demo_first"
    by (simp add: candidates_known_def demo_first_def demo_def demo_lookup_def)
  have h3: "get_language_names demo_first
     [(''lat'', ''4''), (''lon'', ''0''), (''name:zh_pinyin'', ''Beijing''), (''name:zh'', ''Peking'')]
     ''name'' = Some (''cn'', [(''zh_pinyin'', [''Beijing'']), (''zh'', [''Peking''])])"
    by code_simp
  from name_language_keys_known_up_to_script[OF h1 h2 h3]
  have "''zh_pinyin'' \<in> languages demo_first \<or>
        before_first (CHR ''_'') ''zh_pinyin'' \<in> languages demo_first"
    by simp
  with h1 h2 h3 show ?thesis by (intro conjI)
qed

text \<open>
  C5 as stated fails: \<open>zh\<close> is a known code and \<open>zh_pinyin\<close> is not; the tag
  \<open>name:zh_pinyin\<close> passes the test of line 279 through its script-stripped form and is
  stored under the key \<open>zh_pinyin\<close>.
\<close>

theorem name_language_key_with_script_counterexample:
  "get_language_names demo
     [(''lat'', ''4''), (''lon'', ''0''), (''name:zh_pinyin'', ''Beijing'')] ''name''
     = Some (''cn'', [(''zh_pinyin'', [''Beijing''])]) \<and>
   ''zh_pinyin'' \<notin> languages demo"
  by code_simp

section \<open>The language field of the rows\<close>

lemma ways_rows_language: "r \<in> set (ways_rows E tgs) \<Longrightarrow> r \<noteq> [] \<and> hd r \<in> languages E"
  by (auto simp: ways_rows_def split: option.splits if_splits)

lemma address_rows_language: "r \<in> set (address_rows E tgs) \<Longrightarrow> r \<noteq> [] \<and> hd r \<in> languages E"
  by (auto simp: address_rows_def Let_def split: option.splits if_splits)

lemma venue_rows_language: "r \<in> set (venue_rows E tgs) \<Longrightarrow> r \<noteq> [] \<and> hd r \<in> languages E"
  by (auto simp: venue_rows_def Let_def split: option.splits if_splits)

lemma limited_rows_language: "r \<in> set (limited_rows E tgs) \<Longrightarrow> r \<noteq> [] \<and> hd r \<in> languages E"
  by (auto simp: limited_rows_def Let_def split: option.splits if_splits sum.splits)

text \<open>
  C10. Every row written by the builders of the ways, of the address streets, of the
  venues and of the limited formatted addresses starts with a language that is a known
  code: each of them tests \<open>k in languages\<close> before it writes.
\<close>

theorem builders_write_known_languages:
  "\<forall>r \<in> set (build_ways_training_data E infile) \<union> set (build_address_training_data E infile) \<union>
          set (build_venue_training_data E infile) \<union>
          set (build_address_format_training_data_limited E infile).
     r \<noteq> [] \<and> hd r \<in> languages E"
  using ways_rows_language address_rows_language venue_rows_language limited_rows_language
  by (fastforce simp: build_ways_training_data_def build_address_training_data_def
      build_venue_training_data_def build_address_format_training_data_limited_def)

lemma example_infile_ways:
  "parse_osm WAYS_RELATIONS example_infile =
     ([(TypedKey ''way:5'',
        [(''lat'', ''1''), (''lon'', ''0''), (''name:en'', ''Main Street''),
         (''name:fr'', ''Rue Principale''), (''name:ar_Latn'', ''Shari'')])], None)"
  by (simp add: example_infile_def parse_elem_def long_example format_int_5 decode_id_def
      WAY_OFFSET_def RELATION_OFFSET_def WAYS_RELATIONS_def od_item_def od_update_def
      od_of_pairs_def od_pop_def)

lemma example_ways_rows:
  "ways_rows demo
     [(''lat'', ''1''), (''lon'', ''0''), (''name:en'', ''Main Street''),
      (''name:fr'', ''Rue Principale''), (''name:ar_Latn'', ''Shari'')]
   = [[''en'', ''lb'', ''Main Street''], [''fr'', ''lb'', ''Rue Principale'']]"
  by code_simp

theorem builders_write_known_languages_witness:
  "build_ways_training_data demo example_infile
     = [[''en'', ''lb'', ''Main Street''], [''fr'', ''lb'', ''Rue Principale'']] \<and>
   hd [''en'', ''lb'', ''Main Street''] \<in> languages demo"
proof -
  have rows: "build_ways_training_data demo example_infile
     = [[''en'', ''lb'', ''Main Street''], [''fr'', ''lb'', ''Rue Principale'']]"
    by (simp add: build_ways_training_data_def example_infile_ways example_ways_rows)
  then have "[''en'', ''lb'', ''Main Street''] \<in> set (build_ways_training_data demo example_infile)"
    by simp
  with builders_write_known_languages[of demo example_infile]
  have "hd [''en'', ''lb'', ''Main Street''] \<in> languages demo"
    by blast
  with rows show ?thesis by (rule conjI)
qed

section \<open>Entities that are skipped\<close>

lemma strip_keys_set: "set (strip_keys tgs ks) = {kv \<in> set tgs. fst kv \<notin> set ks}"
  unfolding strip_keys_def
  by (induction ks arbitrary: tgs) (auto simp: od_pop_def)

lemma map_of_od_pop: "k' \<noteq> k \<Longrightarrow> map_of (od_pop k d) k' = map_of d k'"
  by (induction d) (auto simp: od_pop_def)

lemma map_of_strip_keys: "k' \<notin> set ks \<Longrightarrow> map_of (strip_keys tgs ks) k' = map_of tgs k'"
  unfolding strip_keys_def
  by (induction ks arbitrary: tgs) (auto simp: map_of_od_pop)

lemma locate_strip_keys:
  "''lat'' \<notin> set ks \<Longrightarrow> ''lon'' \<notin> set ks \<Longrightarrow> locate E (strip_keys tgs ks) = locate E tgs"
  by (simp add: locate_def map_of_strip_keys)

lemma limited_remove_keys:
  "''lat'' \<notin> set (NAME_KEYS @ COUNTRY_KEYS @ POSTAL_KEYS @ OSM_IGNORE_KEYS)"
  "''lon'' \<notin> set (NAME_KEYS @ COUNTRY_KEYS @ POSTAL_KEYS @ OSM_IGNORE_KEYS)"
  "''addr:street'' \<notin> set (NAME_KEYS @ COUNTRY_KEYS @ POSTAL_KEYS @ OSM_IGNORE_KEYS)"
  by (simp_all add: NAME_KEYS_def COUNTRY_KEYS_def POSTAL_KEYS_def OSM_IGNORE_KEYS_def)

text \<open>
  C3 as amended. Whenever, in the fallback of the engine to the bare tag (no alternate,
  several candidates), the disambiguation returns the ambiguous marker, or an answer that
  is otherwise unresolved by the policy (unknown without a single default, or a
  well-represented language caught by the guard), the engine returns \<open>None\<close> for the whole
  entity, and the builders of the ways and of the venues (prefix \<open>name\<close>), of the address
  streets and of the limited formatted addresses (prefix \<open>addr:street\<close>) write no row
  for it.
\<close>

theorem unresolved_bare_tag_skips_entity:
  assumes "locate E tgs = Some (country, cands, props)"
    and "\<forall>kv \<in> set tgs. \<not> is_alternate E p (fst kv)"
    and "length cands \<noteq> 1"
    and "(p, v) \<in> set tgs"
    and "p = ''name'' \<or> p = ''addr:street''"
    and "fallback_aborts E cands props
           (disambiguate_language E v (map (\<lambda>c. (lang c, is_default c)) cands))"
  shows "get_language_names E tgs p = None \<and>
         (if p = ''name'' then ways_rows E tgs = [] \<and> venue_rows E tgs = []
          else address_rows E tgs = [] \<and> limited_rows E tgs = [])"
proof -
  have bare: "\<not> prefix (p @ '':'') p" "is_bare p p"
    using assms(5) is_bare_name is_bare_street by auto
  have none: "get_language_names E tgs p = None"
    by (rule get_language_names_aborts[OF assms(1-4) bare assms(6)])
  show ?thesis
  proof (cases "p = ''name''")
    case True
    with none show ?thesis by (simp add: ways_rows_def venue_rows_def)
  next
    case False
    with assms(5) have p: "p = ''addr:street''" by simp
    let ?ks = "NAME_KEYS @ COUNTRY_KEYS @ POSTAL_KEYS @ OSM_IGNORE_KEYS"
    let ?S = "strip_keys tgs ?ks"
    have l: "locate E ?S = Some (country, cands, props)"
      using assms(1) by (simp only: locate_strip_keys[OF limited_remove_keys(1,2)])
    have a: "\<forall>kv \<in> set ?S. \<not> is_alternate E p (fst kv)"
      using assms(2) by (simp add: strip_keys_set)
    have m: "(p, v) \<in> set ?S"
      using assms(4) limited_remove_keys(3) by (simp add: strip_keys_set p)
    have "get_language_names E ?S p = None"
      by (rule get_language_names_aborts[OF l a assms(3) m bare assms(6)])
    then have "limited_rows E tgs = []"
      by (simp add: limited_rows_def p Let_def split: option.splits sum.splits)
    with none p show ?thesis by (simp add: address_rows_def)
  qed
qed

theorem unresolved_bare_tag_skips_entity_witness:
  "(get_language_names demo
      [(''lat'', ''3''), (''lon'', ''0''), (''name'', ''Centre''), (''amenity'', ''cafe'')] ''name'' = None \<and>
    ways_rows demo
      [(''lat'', ''3''), (''lon'', ''0''), (''name'', ''Centre''), (''amenity'', ''cafe'')] = [] \<and>
    venue_rows demo
      [(''lat'', ''3''), (''lon'', ''0''), (''name'', ''Centre''), (''amenity'', ''cafe'')] = []) \<and>
   (get_language_names demo
      [(''lat'', ''3''), (''lon'', ''0''), (''addr:street'', ''Centre''), (''addr:housenumber'', ''8'')]
      ''addr:street'' = None \<and>
    address_rows demo
      [(''lat'', ''3''), (''lon'', ''0''), (''addr:street'', ''Centre''), (''addr:housenumber'', ''8'')] = [] \<and>
    limited_rows demo
      [(''lat'', ''3''), (''lon'', ''0''), (''addr:street'', ''Centre''), (''addr:housenumber'', ''8'')] = [])"
proof -
  let ?N = "[(''lat'', ''3''), (''lon'', ''0''), (''name'', ''Centre''), (''amenity'', ''cafe'')]"
  let ?A = "[(''lat'', ''3''), (''lon'', ''0''), (''addr:street'', ''Centre''),
             (''addr:housenumber'', ''8'')]"
  let ?C = "fst (snd (demo_lookup 3 0))"
  let ?P = "snd (snd (demo_lookup 3 0))"
  have n1: "locate demo ?N = Some (''be'', ?C, ?P)" by (rule locate_3) simp_all
  have a1: "locate demo ?A = Some (''be'', ?C, ?P)" by (rule locate_3) simp_all
  have n2: "\<forall>kv \<in> set ?N. \<not> is_alternate demo ''name'' (fst kv)"
    by (simp add: is_alternate_def)
  have a2: "\<forall>kv \<in> set ?A. \<not> is_alternate demo ''addr:street'' (fst kv)"
    by (simp add: is_alternate_def)
  have c: "length ?C \<noteq> 1" by (simp add: demo_lookup_def)
  have n4: "(''name'', ''Centre'') \<in> set ?N" by simp
  have a4: "(''addr:street'', ''Centre'') \<in> set ?A" by simp
  have f: "fallback_aborts demo ?C ?P
             (disambiguate_language demo ''Centre'' (map (\<lambda>c. (lang c, is_default c)) ?C))"
    by (simp add: fallback_aborts_def demo_def)
  have n5: "''name'' = ''name'' \<or> ''name'' = ''addr:street''" by simp
  have a5: "''addr:street'' = ''name'' \<or> ''addr:street'' = ''addr:street''" by simp
  from unresolved_bare_tag_skips_entity[OF n1 n2 c n4 n5 f]
  have first: "get_language_names demo ?N ''name'' = None \<and> ways_rows demo ?N = [] \<and>
               venue_rows demo ?N = []"
    by simp
  from unresolved_bare_tag_skips_entity[OF a1 a2 c a4 a5 f]
  have second: "get_language_names demo ?A ''addr:street'' = None \<and> address_rows demo ?A = [] \<and>
                limited_rows demo ?A = []"
    by simp
  from first second show ?thesis by (rule conjI)
qed

lemma example_address_infile_all:
  "parse_osm ALL_OSM_TAGS example_address_infile =
     ([(TypedKey ''node:12'',
        [(''lat'', ''3''), (''lon'', ''0''), (''addr:street'', ''Centre''),
         (''addr:housenumber'', ''8'')])], None)"
  by code_simp

lemma example_address_format_rows:
  "format_rows demo True
     [(''lat'', ''3''), (''lon'', ''0''), (''addr:street'', ''Centre''), (''addr:housenumber'', ''8'')]
   = [[''xxx'', ''be'', ''Centre|8|'']]"
  by code_simp

text \<open>
  C3 as stated fails for the tagged builder of formatted addresses: with several
  candidates it disambiguates the street, and writes the row under whatever was returned.
  Here the street is ambiguous, and the row is written with the ambiguous marker as its
  language.
\<close>

theorem tagged_builder_writes_ambiguous_marker_counterexample:
  "disambiguate_language demo ''Centre'' [(''nl'', True), (''fr'', True), (''de'', True)]
     = AMBIGUOUS_LANGUAGE demo \<and>
   AMBIGUOUS_LANGUAGE demo = ''xxx'' \<and>
   build_address_format_training_data demo example_address_infile True
     = [[''xxx'', ''be'', ''Centre|8|'']]"
  by (simp add: build_address_format_training_data_def example_address_infile_all
      example_address_format_rows) (simp add: demo_def)

section \<open>The bare name of a toponym\<close>

lemma toponym_qualified_no_match:
  assumes "\<forall>kv \<in> set tgs. prefix ''name:'' (fst kv) \<longrightarrow>
             (\<forall>l. toponym_tag_language E (fst kv) = Some l \<longrightarrow> l \<notin> valid)"
  shows "toponym_qualified E valid tgs acc = acc"
  using assms
  by (induction tgs arbitrary: acc) (auto split: option.splits)

lemma map_of_name_prefix:
  "map_of tgs ''name'' = Some v \<Longrightarrow> list_ex (\<lambda>kv. prefix ''name'' (fst kv)) tgs"
  by (auto simp: list_ex_iff dest!: map_of_SomeD intro!: bexI[where x = "(''name'', v)"])

text \<open>
  C7 as amended. In the toponym builder, for every entity where no qualified name tag
  stands for a language of the valid-language set, a bare name tag exists, the regional
  polygons (\<open>admin_level > 0\<close>) over the point declare at most one language entry
  altogether, and exactly one valid language remains, which is the first official
  language of the country, the bare name value is attributed to that language, and it is
  the only attribution of the entity.
\<close>

theorem toponym_bare_name_last_resort:
  assumes "locate E tgs = Some (country, cands, props)"
    and "\<forall>kv \<in> set tgs. prefix ''name:'' (fst kv) \<longrightarrow>
           (\<forall>l'. toponym_tag_language E (fst kv) = Some l' \<longrightarrow>
                 l' \<notin> toponym_valid_languages E country cands)"
    and "map_of tgs ''name'' = Some v"
    and "length (regional_langs_of props) \<le> 1"
    and "toponym_valid_languages E country cands = {l}"
    and "top_lang_of E country = Some l"
  shows "toponym_names E tgs country cands props = [(Some l, [v])] \<and>
         toponym_rows E tgs =
           (if strip_ws v = [] then [] else [[l, country, tsv_string E (strip_ws v)]])"
proof -
  have q: "toponym_qualified E (toponym_valid_languages E country cands) tgs (False, []) = (False, [])"
    by (rule toponym_qualified_no_match[OF assms(2)])
  have n: "toponym_names E tgs country cands props = [(Some l, [v])]"
    using assms(3,4,6) q[unfolded assms(5)] by (simp add: toponym_names_def assms(5) Let_def)
  show ?thesis
    using assms(1) map_of_name_prefix[OF assms(3)]
    by (simp add: n toponym_rows_def assms(5) Let_def)
qed

lemma locate_2:
  "map_of tgs ''lat'' = Some ''2'' \<Longrightarrow> map_of tgs ''lon'' = Some ''0'' \<Longrightarrow>
   locate demo tgs = Some (''fr'', fst (snd (demo_lookup 2 0)), snd (snd (demo_lookup 2 0)))"
  by (simp add: locate_def located_2 demo_def demo_lookup_def)

lemma demo_valid_fr: "toponym_valid_languages demo ''fr'' (fst (snd (demo_lookup 2 0))) = {''fr''}"
  by code_simp

theorem toponym_bare_name_last_resort_witness:
  "toponym_names demo [(''lat'', ''2''), (''lon'', ''0''), (''name'', ''Paris'')] ''fr''
     (fst (snd (demo_lookup 2 0))) (snd (snd (demo_lookup 2 0))) = [(Some ''fr'', [''Paris''])] \<and>
   toponym_rows demo [(''lat'', ''2''), (''lon'', ''0''), (''name'', ''Paris'')]
     = [[''fr'', ''fr'', ''Paris'']]"
proof -
  let ?T = "[(''lat'', ''2''), (''lon'', ''0''), (''name'', ''Paris'')]"
  have h1: "locate demo ?T = Some (''fr'', fst (snd (demo_lookup 2 0)), snd (snd (demo_lookup 2 0)))"
    by (rule locate_2) simp_all
  have h2: "\<forall>kv \<in> set ?T. prefix ''name:'' (fst kv) \<longrightarrow>
           (\<forall>l'. toponym_tag_language demo (fst kv) = Some l' \<longrightarrow>
                 l' \<notin> toponym_valid_languages demo ''fr'' (fst (snd (demo_lookup 2 0))))"
    by simp
  have h3: "map_of ?T ''name'' = Some ''Paris''" by simp
  have h4: "length (regional_langs_of (snd (snd (demo_lookup 2 0)))) \<le> 1"
    by (simp add: regional_langs_of_def demo_lookup_def)
  have h6: "top_lang_of demo ''fr'' = Some ''fr''"
    by (simp add: top_lang_of_def demo_def)
  have s: "strip_ws ''Paris'' = ''Paris''"
    by (simp add: strip_ws_def strip_def whitespace_def)
  from toponym_bare_name_last_resort[OF h1 h2 h3 h4 demo_valid_fr h6]
  show ?thesis
    by (simp add: s demo_def)
qed

text \<open>
  The bare name goes to the first official language of the country whether or not that
  is the valid language: at the fifth point of the small world \<open>ar\<close> is the only valid
  language, \<open>fr\<close> is listed first among the official languages, and the row is written
  for \<open>fr\<close>. The theorem above leaves this case out.
\<close>

lemma toponym_bare_name_goes_to_top_lang:
  "toponym_valid_languages demo ''ma'' (fst (snd (demo_lookup 5 0))) = {''ar''} \<and>
   top_lang_of demo ''ma'' = Some ''fr'' \<and>
   toponym_rows demo [(''lat'', ''5''), (''lon'', ''0''), (''name'', ''Rabat'')]
     = [[''fr'', ''ma'', ''Rabat'']]"
  by code_simp

text \<open>
  C7 as stated fails: at the sixth point of the small world a single regional polygon
  overlaps, and it declares two languages. No qualified name tag is present, the bare
  name exists and \<open>fr\<close> is the only valid language; the builder counts the language
  entries of the regional polygons, finds two, and writes nothing.
\<close>

theorem toponym_single_region_two_languages_counterexample:
  "map admin_level (snd (snd (demo_lookup 6 0))) = [0, 4] \<and>
   toponym_valid_languages demo ''sn'' (fst (snd (demo_lookup 6 0))) = {''fr''} \<and>
   locate demo [(''lat'', ''6''), (''lon'', ''0''), (''name'', ''Dakar'')]
     = Some (''sn'', fst (snd (demo_lookup 6 0)), snd (snd (demo_lookup 6 0))) \<and>
   toponym_names demo [(''lat'', ''6''), (''lon'', ''0''), (''name'', ''Dakar'')] ''sn''
     (fst (snd (demo_lookup 6 0))) (snd (snd (demo_lookup 6 0))) = [] \<and>
   toponym_rows demo [(''lat'', ''6''), (''lon'', ''0''), (''name'', ''Dakar'')] = []"
  by code_simp

section \<open>The tag bag of a language\<close>
































text \<open>
  Two cases the theorem leaves open. With several languages attributed and the localized
  values listed before the field, each localized value is dropped when its turn comes
  (it has no override of its own), the field then finds none and is dropped too, the bag
  is empty and no row is written. With a localized value that has a localized value of
  its own, listed in between, the field takes the latter.
\<close>

lemma limited_rows_override_listed_first:
  "get_language_names demo example_address_three ''addr:street''
     = Some (''be'', [(''nl'', [''Nieuwstraat'']), (''fr'', [''Rue Neuve''])]) \<and>
   localize ''nl'' False example_address_three = [] \<and>
   localize ''fr'' False example_address_three = [] \<and>
   limited_rows demo example_address_three = []"
  by code_simp

lemma limited_rows_override_of_override:
  "get_language_names demo example_address_four ''addr:street''
     = Some (''fr'', [(''fr'', [''Rue Neuve'', ''Rue Nouvelle''])]) \<and>
   map_of (localize ''fr'' True example_address_four) ''addr:street'' = Some ''Rue Nouvelle''"
  by code_simp

end
